theory Spec2Isabelle
  imports Complex_Main
begin

section \<open>Data model of \<^verbatim>\<open>src/backend/server.py\<close>\<close>

text \<open>
  The user-battle flow of the server keeps its state in four tables of an external store:
  \<^verbatim>\<open>battles\<close>, \<^verbatim>\<open>battle_submissions\<close>, \<^verbatim>\<open>votes\<close> and \<^verbatim>\<open>notifications\<close>. Every
  handler reads and writes these tables, so the model threads one \<open>store\<close> value through
  each handler and returns the outcome together with the store the handler leaves behind
  (a handler that raises after a write leaves the write in place).

  Timestamps are integers counting microseconds (the resolution of \<^verbatim>\<open>datetime\<close>); every
  reading of the clock is an argument of the handler that reads it. User and battle ids
  are strings. Columns that no handler of the flow reads back (title, description,
  option\_a, option\_b, type, participant\_ids, is\_active, created\_at of a battle) are left
  out of the rows.
\<close>

datatype http_exception = HTTPException (status_code: nat) (detail: string)

datatype battle_status = INVITED | UPLOADING | LIVE | ENDED | CANCELLED

record battle =
  creator_id :: string
  mode :: string
  status :: battle_status
  accept_deadline :: "int option"
  invited_user_ids :: "string list"
  accepted_user_ids :: "string list"
  start_time :: "int option"
  end_time :: "int option"
  vote_counts :: "string \<rightharpoonup> nat"

record submission =
  sub_battle_id :: string
  sub_user_id :: string
  sub_media_url :: string
  sub_created_at :: int

record vote =
  vote_battle_id :: string
  vote_user_id :: string
  vote_choice :: "string option"
  vote_created_at :: int

record notification =
  n_user_id :: string
  n_title :: string
  n_message :: string
  n_type :: string
  n_reference_id :: "string option"
  n_is_read :: bool

record store =
  battles :: "string \<rightharpoonup> battle"
  battle_submissions :: "submission list"
  votes :: "vote list"
  notifications :: "notification list"

definition empty_store :: store where
  "empty_store = \<lparr>battles = Map.empty, battle_submissions = [], votes = [], notifications = []\<rparr>"

text \<open>\<^verbatim>\<open>timedelta(hours=h)\<close> in microseconds.\<close>

definition timedelta_hours :: "int \<Rightarrow> int" where
  "timedelta_hours h = h * 3600000000"

subsection \<open>Store and notification helpers\<close>

text \<open>
  \<^verbatim>\<open>notify_user\<close> inserts one row into \<^verbatim>\<open>notifications\<close>; a failure of the insert is
  logged and swallowed, so the call never raises. The model records the row.
\<close>

definition notify_user :: "string \<Rightarrow> string \<Rightarrow> string \<Rightarrow> string \<Rightarrow> string option \<Rightarrow> store \<Rightarrow> store" where
  "notify_user user_id title message ntype reference_id s =
     s\<lparr>notifications := notifications s @
        [\<lparr>n_user_id = user_id, n_title = title, n_message = message, n_type = ntype,
          n_reference_id = reference_id, n_is_read = False\<rparr>]\<rparr>"

text \<open>A \<^verbatim>\<open>for\<close> loop that notifies each user of a list in turn.\<close>

definition notify_each :: "string list \<Rightarrow> string \<Rightarrow> string \<Rightarrow> string \<Rightarrow> string option \<Rightarrow> store \<Rightarrow> store" where
  "notify_each users title message ntype reference_id s =
     fold (\<lambda>u. notify_user u title message ntype reference_id) users s"

definition tag_from_user :: "string \<Rightarrow> string" where
  "tag_from_user uid = ''@'' @ uid"

text \<open>\<^verbatim>\<open>table("battles").update({...}).eq("id", battle_id).execute()\<close>: the row with that
  id, when there is one, gets the new column values.\<close>

definition update_battle :: "string \<Rightarrow> (battle \<Rightarrow> battle) \<Rightarrow> store \<Rightarrow> store" where
  "update_battle battle_id f s =
     (case battles s battle_id of
        None \<Rightarrow> s
      | Some b \<Rightarrow> s\<lparr>battles := (battles s)(battle_id \<mapsto> f b)\<rparr>)"

text \<open>
  Python builds \<^verbatim>\<open>set(...)\<close> from the stored id lists and writes \<^verbatim>\<open>list(accepted)\<close>
  back. The order of that list is not specified by Python; the model keeps the order of
  first occurrence and appends a new element at the end. No handler depends on the order.
\<close>

definition py_set :: "string list \<Rightarrow> string list" where
  "py_set xs = rev (remdups (rev xs))"

definition py_set_add :: "string \<Rightarrow> string list \<Rightarrow> string list" where
  "py_set_add x xs = (if x \<in> set xs then xs else xs @ [x])"

section \<open>Creation: \<^verbatim>\<open>UserBattleCreate\<close> and \<^verbatim>\<open>create_user_battle\<close>\<close>

record user_battle_create =
  ubc_mode :: string
  ubc_invited_user_ids :: "string list"

definition validate_mode :: "string \<Rightarrow> string + string" where
  "validate_mode v =
     (if v \<notin> {''1v1'', ''multi''} then Inl ''mode must be 1v1 or multi'' else Inr v)"

text \<open>
  \<open>values_mode\<close> is \<^verbatim>\<open>values.get('mode')\<close>: the validated mode, or \<open>None\<close> when the mode
  failed its own validator. The branch for the other modes tests the size and then does
  \<^verbatim>\<open>pass\<close>, so both of its outcomes return the list.
\<close>

definition validate_invites :: "string list \<Rightarrow> string option \<Rightarrow> string + string list" where
  "validate_invites v values_mode =
     (if values_mode = Some ''1v1'' then
        (if length v \<noteq> 1 then Inl ''1v1 battles require exactly one invited user'' else Inr v)
      else
        (if length v < 2 \<or> length v > 3 then Inr v else Inr v))"

text \<open>
  Pydantic runs the validators in field order, collects every \<^verbatim>\<open>ValueError\<close> and builds
  the model only when there is none.
\<close>

definition parse_UserBattleCreate :: "string \<Rightarrow> string list \<Rightarrow> string list + user_battle_create" where
  "parse_UserBattleCreate m invited =
     (let rm = validate_mode m;
          values_mode = (case rm of Inl _ \<Rightarrow> None | Inr v \<Rightarrow> Some v);
          ri = validate_invites invited values_mode;
          errors = (case rm of Inl e \<Rightarrow> [e] | Inr _ \<Rightarrow> []) @ (case ri of Inl e \<Rightarrow> [e] | Inr _ \<Rightarrow> [])
      in if errors = [] then Inr \<lparr>ubc_mode = m, ubc_invited_user_ids = invited\<rparr>
         else Inl errors)"

text \<open>
  \<^verbatim>\<open>create_user_battle\<close>. FastAPI answers 422 when the payload does not validate and
  never calls the handler. \<open>new_id\<close> is the value of \<^verbatim>\<open>uuid.uuid4()\<close>; the insert of a row
  whose id is taken fails, which the handler turns into a 500. The column
  \<^verbatim>\<open>vote_counts\<close> is not written by the handler and starts as the empty dictionary.
\<close>

definition create_user_battle ::
  "string \<Rightarrow> string \<Rightarrow> string \<Rightarrow> string list \<Rightarrow> int \<Rightarrow> store \<Rightarrow> (http_exception + string) \<times> store" where
  "create_user_battle new_id current_user m invited now s =
     (case parse_UserBattleCreate m invited of
        Inl errors \<Rightarrow> (Inl (HTTPException 422 (concat errors)), s)
      | Inr payload \<Rightarrow>
          if new_id \<in> dom (battles s) then
            (Inl (HTTPException 500 ''User battle flow not enabled. Run DB migration.''), s)
          else
            let record = \<lparr>creator_id = current_user, mode = ubc_mode payload, status = INVITED,
                          accept_deadline = Some (now + timedelta_hours 2),
                          invited_user_ids = ubc_invited_user_ids payload,
                          accepted_user_ids = [], start_time = None, end_time = None,
                          vote_counts = Map.empty\<rparr>;
                s1 = s\<lparr>battles := (battles s)(new_id \<mapsto> record)\<rparr>;
                s2 = notify_each (ubc_invited_user_ids payload)
                       (tag_from_user current_user @ '' challenged you.'')
                       ''Accept within 2 hours to join.'' ''challenge_sent'' (Some new_id) s1
            in (Inr new_id, s2))"

section \<open>Acceptance: \<^verbatim>\<open>_threshold_met\<close>, \<^verbatim>\<open>accept_battle\<close>, \<^verbatim>\<open>decline_battle\<close>\<close>

text \<open>
  The three handlers below load the battle row with \<^verbatim>\<open>_load_acceptance_lists\<close>, whose
  query ends in \<^verbatim>\<open>single().execute()\<close>. That call raises when no row has the id, so the
  404 that the helper would raise on empty data is never reached: the exception is not an
  \<^verbatim>\<open>HTTPException\<close> and the \<^verbatim>\<open>except Exception\<close> of each handler answers its own 500.
\<close>

definition threshold_met :: "string \<Rightarrow> nat \<Rightarrow> bool" where
  "threshold_met m accepted_count =
     ((m = ''1v1'' \<and> accepted_count \<ge> 1) \<or> (m = ''multi'' \<and> accepted_count \<ge> 2))"

definition accept_battle :: "string \<Rightarrow> string \<Rightarrow> int \<Rightarrow> store \<Rightarrow> (http_exception + bool) \<times> store" where
  "accept_battle battle_id uid now s =
     (case battles s battle_id of
        None \<Rightarrow> (Inl (HTTPException 500 ''Failed to accept battle''), s)
      | Some data \<Rightarrow>
          if (case accept_deadline data of None \<Rightarrow> False | Some d \<Rightarrow> now > d) then
            (Inl (HTTPException 400 ''Acceptance window expired''),
             notify_user (creator_id data) ''Battle cancelled.''
               ''Acceptance requirement not met in 2 hours.'' ''battle_result'' (Some battle_id)
               (update_battle battle_id (\<lambda>b. b\<lparr>status := CANCELLED\<rparr>) s))
          else
            let invited = py_set (invited_user_ids data);
                accepted = py_set (accepted_user_ids data)
            in if uid \<notin> set invited then (Inl (HTTPException 403 ''Not invited''), s)
               else if uid \<in> set accepted then (Inr True, s)
               else
                 let accepted = py_set_add uid accepted;
                     s1 = update_battle battle_id
                            (\<lambda>b. b\<lparr>accepted_user_ids := accepted, status := INVITED\<rparr>) s;
                     accepter = tag_from_user uid;
                     s2 = notify_user (creator_id data) (accepter @ '' accepted your battle.'')
                            ''Upload your photo to start.'' ''challenge_accepted'' (Some battle_id) s1;
                     s3 = notify_each (filter (\<lambda>aid. aid \<noteq> creator_id data \<and> aid \<noteq> uid) accepted)
                            (accepter @ '' joined the battle.'')
                            ''Upload your photo to start.'' ''challenge_accepted'' (Some battle_id) s2
                 in if threshold_met (mode data) (length accepted) then
                      let s4 = update_battle battle_id (\<lambda>b. b\<lparr>status := UPLOADING\<rparr>) s3;
                          participants = accepted @ [creator_id data];
                          s5 = notify_each participants ''Battle is ready to upload.''
                                 ''Upload your image to begin.'' ''battle_started'' (Some battle_id) s4
                      in (Inr True, s5)
                    else (Inr True, s3))"

definition decline_battle :: "string \<Rightarrow> string \<Rightarrow> store \<Rightarrow> (http_exception + bool) \<times> store" where
  "decline_battle battle_id uid s =
     (case battles s battle_id of
        None \<Rightarrow> (Inl (HTTPException 500 ''Failed to decline battle''), s)
      | Some data \<Rightarrow>
          if uid \<notin> set (py_set (invited_user_ids data)) then (Inl (HTTPException 403 ''Not invited''), s)
          else (Inr True, s))"

section \<open>Upload: \<^verbatim>\<open>upload_battle_submission\<close>\<close>

text \<open>
  Modelled from the spec: the schema of the table \<^verbatim>\<open>battle_submissions\<close> is not part of
  the sources. The spec keys a Submission by (battle\_id, user\_id) with an idempotent
  upsert, so the upsert replaces the row with the same key when there is one and appends
  the row otherwise.
\<close>

definition upsert_submission :: "submission \<Rightarrow> submission list \<Rightarrow> submission list" where
  "upsert_submission r rows =
     (if \<exists>x \<in> set rows. sub_battle_id x = sub_battle_id r \<and> sub_user_id x = sub_user_id r
      then map (\<lambda>x. if sub_battle_id x = sub_battle_id r \<and> sub_user_id x = sub_user_id r
                      then r else x) rows
      else rows @ [r])"

text \<open>
  The handler reads the clock three times: for \<^verbatim>\<open>created_at\<close> of the submission, for
  \<^verbatim>\<open>start_time\<close> and for \<^verbatim>\<open>end_time\<close>. \<open>media_url\<close> is \<^verbatim>\<open>payload.get("media_url")\<close>.
\<close>

definition upload_battle_submission ::
  "string \<Rightarrow> string \<Rightarrow> string option \<Rightarrow> int \<Rightarrow> int \<Rightarrow> int \<Rightarrow> store \<Rightarrow> (http_exception + bool) \<times> store" where
  "upload_battle_submission battle_id uid media_url t_created t_start t_end s =
     (case battles s battle_id of
        None \<Rightarrow> (Inl (HTTPException 500 ''Failed to upload''), s)
      | Some data \<Rightarrow>
          let creator = creator_id data;
              accepted = py_set (accepted_user_ids data)
          in if uid \<noteq> creator \<and> uid \<notin> set accepted then
               (Inl (HTTPException 403 ''Not allowed to upload''), s)
             else if media_url = None \<or> media_url = Some [] then
               (Inl (HTTPException 400 ''media_url required''), s)
             else
               let s1 = s\<lparr>battle_submissions := upsert_submission
                          \<lparr>sub_battle_id = battle_id, sub_user_id = uid,
                           sub_media_url = the media_url, sub_created_at = t_created\<rparr>
                          (battle_submissions s)\<rparr>;
                   required = length accepted + 1;
                   subs = filter (\<lambda>r. sub_battle_id r = battle_id) (battle_submissions s1);
                   unique_uploaders = length (py_set (map sub_user_id subs))
               in if unique_uploaders \<ge> required then
                    let s2 = update_battle battle_id
                               (\<lambda>b. b\<lparr>status := LIVE, start_time := Some t_start,
                                       end_time := Some (t_end + timedelta_hours 24)\<rparr>) s1;
                        s3 = notify_each (accepted @ [creator]) ''Battle is LIVE for 24 hours.''
                               ''Share to get votes!'' ''battle_started'' (Some battle_id) s2
                    in (Inr True, s3)
                  else (Inr True, s1))"

section \<open>Votes: \<^verbatim>\<open>vote_battle\<close> and \<^verbatim>\<open>get_battle_results_internal\<close>\<close>

text \<open>
  \<open>choice\<close> is the entry \<^verbatim>\<open>"choice"\<close> of the request dictionary \<^verbatim>\<open>vote_data\<close>, \<open>None\<close> when
  the key is missing; the values of the key are strings (a JSON null or a value of
  another type is not represented), and the insert of the row is taken to succeed. The
  handler inserts the vote first and reads the battle afterwards:
  a missing battle (\<^verbatim>\<open>single()\<close> raises) or a missing key (\<^verbatim>\<open>KeyError\<close>) ends in the
  generic 500 with the vote row already written.
\<close>

definition vote_battle :: "string \<Rightarrow> string \<Rightarrow> string option \<Rightarrow> int \<Rightarrow> store \<Rightarrow> (http_exception + vote) \<times> store" where
  "vote_battle battle_id uid choice now s =
     (let existing_vote = filter (\<lambda>v. vote_battle_id v = battle_id \<and> vote_user_id v = uid) (votes s)
      in if existing_vote \<noteq> [] then
           (Inl (HTTPException 400 ''User has already voted on this battle''), s)
         else
           let row = \<lparr>vote_battle_id = battle_id, vote_user_id = uid, vote_choice = choice,
                      vote_created_at = now\<rparr>;
               s1 = s\<lparr>votes := votes s @ [row]\<rparr>
           in (case battles s1 battle_id of
                 None \<Rightarrow> (Inl (HTTPException 500 ''Failed to vote on battle''), s1)
               | Some b \<Rightarrow>
                   (case choice of
                      None \<Rightarrow> (Inl (HTTPException 500 ''Failed to vote on battle''), s1)
                    | Some c \<Rightarrow>
                        let current_counts =
                              (vote_counts b)(c \<mapsto> (case vote_counts b c of None \<Rightarrow> 0 | Some n \<Rightarrow> n) + 1);
                            s2 = update_battle battle_id (\<lambda>b. b\<lparr>vote_counts := current_counts\<rparr>) s1;
                            s3 = (if creator_id b \<noteq> [] \<and> creator_id b \<noteq> uid
                                  then notify_user (creator_id b)
                                         (tag_from_user uid @ '' voted in your battle.'') [] ''vote''
                                         (Some battle_id) s2
                                  else s2)
                        in (Inr row, s3))))"

subsection \<open>Python float arithmetic\<close>

text \<open>
  The percentages are Python floats (IEEE binary64). A float is modelled by the rational
  number it denotes. \<open>binary64 q\<close> is the float nearest to a non-negative rational \<open>q\<close>,
  ties to the even significand: the significand has 53 bits. Overflow and subnormal
  results are not modelled; they need operands beyond \<open>2 ^ 1022\<close>, while every value below
  lies between a quotient of two row counts and 100.
\<close>

text \<open>\<open>bit_length n\<close> is Python's \<^verbatim>\<open>n.bit_length()\<close> for \<open>n \<ge> 0\<close>.\<close>

function bit_length :: "int \<Rightarrow> int" where
  "bit_length n = (if n \<le> 0 then 0 else 1 + bit_length (n div 2))"
  by pat_completeness auto
termination
  by (relation "measure nat") auto

declare bit_length.simps [simp del]

definition round_half_even :: "rat \<Rightarrow> int" where
  "round_half_even q =
     (let f = \<lfloor>q\<rfloor>; r = q - of_int f
      in if r < 1 / 2 then f else if r > 1 / 2 then f + 1 else if even f then f else f + 1)"

definition pow2 :: "int \<Rightarrow> rat" where
  "pow2 e = (if e \<ge> 0 then 2 ^ nat e else 1 / 2 ^ nat (- e))"

text \<open>\<open>ilog2 q\<close> is the integer \<open>e\<close> with \<open>2 ^ e \<le> q < 2 ^ (e + 1)\<close>, for \<open>q > 0\<close>.\<close>

definition ilog2 :: "rat \<Rightarrow> int" where
  "ilog2 q =
     (let (n, d) = quotient_of q;
          k = bit_length n - bit_length d
      in if pow2 k \<le> q then k else k - 1)"

definition binary64 :: "rat \<Rightarrow> rat" where
  "binary64 q =
     (if q \<le> 0 then 0
      else let e = ilog2 q - 52
           in of_int (round_half_even (q / pow2 e)) * pow2 e)"

text \<open>\<^verbatim>\<open>a / b\<close> on two ints is the correctly rounded quotient; \<^verbatim>\<open>x * 100\<close> is the rounded
  product; \<^verbatim>\<open>round(x, ndigits)\<close> rounds the exact value of \<open>x\<close> to \<open>ndigits\<close> decimals, ties
  to even, and returns the float nearest to that decimal.\<close>

definition py_truediv :: "nat \<Rightarrow> nat \<Rightarrow> rat" where
  "py_truediv a b = binary64 (of_nat a / of_nat b)"

definition py_float_mul :: "rat \<Rightarrow> rat \<Rightarrow> rat" where
  "py_float_mul x y = binary64 (x * y)"

definition py_round :: "rat \<Rightarrow> nat \<Rightarrow> rat" where
  "py_round x ndigits = binary64 (of_int (round_half_even (x * 10 ^ ndigits)) / 10 ^ ndigits)"

record battle_results_response =
  res_battle_id :: string
  total_votes :: nat
  option_a_votes :: nat
  option_b_votes :: nat
  option_a_percentage :: rat
  option_b_percentage :: rat

text \<open>The handler only selects from \<^verbatim>\<open>votes\<close>; the store it returns is the one it got.\<close>

definition get_battle_results_internal :: "string \<Rightarrow> store \<Rightarrow> (http_exception + battle_results_response) \<times> store" where
  "get_battle_results_internal battle_id s =
     (let votes_data = filter (\<lambda>v. vote_battle_id v = battle_id) (votes s);
          total = length votes_data;
          a_votes = length (filter (\<lambda>v. vote_choice v = Some ''A'') votes_data);
          b_votes = length (filter (\<lambda>v. vote_choice v = Some ''B'') votes_data);
          a_percentage = (if total > 0 then py_float_mul (py_truediv a_votes total) 100 else 0);
          b_percentage = (if total > 0 then py_float_mul (py_truediv b_votes total) 100 else 0)
      in (Inr \<lparr>res_battle_id = battle_id, total_votes = total, option_a_votes = a_votes,
               option_b_votes = b_votes,
               option_a_percentage = py_round a_percentage 1,
               option_b_percentage = py_round b_percentage 1\<rparr>, s))"

section \<open>Sequences of operations\<close>

datatype operation =
    Create string string string "string list" int
  | Accept string string int
  | Decline string string
  | Upload string string "string option" int int int
  | Vote string string "string option" int
  | Results string

fun step :: "operation \<Rightarrow> store \<Rightarrow> store" where
  "step (Create new_id creator m invited now) s = snd (create_user_battle new_id creator m invited now s)"
| "step (Accept battle_id uid now) s = snd (accept_battle battle_id uid now s)"
| "step (Decline battle_id uid) s = snd (decline_battle battle_id uid s)"
| "step (Upload battle_id uid media_url t1 t2 t3) s =
     snd (upload_battle_submission battle_id uid media_url t1 t2 t3 s)"
| "step (Vote battle_id uid choice now) s = snd (vote_battle battle_id uid choice now s)"
| "step (Results battle_id) s = snd (get_battle_results_internal battle_id s)"

definition run :: "operation list \<Rightarrow> store \<Rightarrow> store" where
  "run ops s = fold step ops s"

section \<open>Names of the spec, invariants and example runs\<close>

text \<open>The spec's names for the errors the handlers raise.\<close>

definition ExpiredWindow :: http_exception where
  "ExpiredWindow = HTTPException 400 ''Acceptance window expired''"

definition Forbidden :: http_exception where
  "Forbidden = HTTPException 403 ''Not invited''"

definition AlreadyVoted :: http_exception where
  "AlreadyVoted = HTTPException 400 ''User has already voted on this battle''"

text \<open>
  The completeness rule in the spec's words: the users with a submission for a battle,
  and the required submitters of a battle row (the creator and every accepted user).
\<close>

definition submitters :: "string \<Rightarrow> store \<Rightarrow> string set" where
  "submitters b s =
     set (map sub_user_id (filter (\<lambda>r. sub_battle_id r = b) (battle_submissions s)))"

definition required_submitters :: "battle \<Rightarrow> string set" where
  "required_submitters data = insert (creator_id data) (set (accepted_user_ids data))"

definition submission_keys :: "submission list \<Rightarrow> (string \<times> string) list" where
  "submission_keys rows = map (\<lambda>r. (sub_battle_id r, sub_user_id r)) rows"

text \<open>The invariant on the acceptance lists, and the presence of a vote of a user.\<close>

definition accepted_within_invited :: "store \<Rightarrow> bool" where
  "accepted_within_invited s =
     (\<forall>b data. battles s b = Some data \<longrightarrow>
        set (accepted_user_ids data) \<subseteq> set (invited_user_ids data))"

text \<open>
  The invariant behind the threshold: the mode is one of the two validated modes, and a
  battle in status INVITED has not reached the threshold of its mode.
\<close>

definition invited_below_threshold :: "store \<Rightarrow> bool" where
  "invited_below_threshold s =
     (\<forall>b data. battles s b = Some data \<longrightarrow>
        (mode data = ''1v1'' \<or> mode data = ''multi'') \<and>
        (status data = INVITED \<longrightarrow>
           \<not> threshold_met (mode data) (card (set (accepted_user_ids data)))))"

definition has_vote :: "string \<Rightarrow> string \<Rightarrow> store \<Rightarrow> bool" where
  "has_vote b u s = (\<exists>v \<in> set (votes s). vote_battle_id v = b \<and> vote_user_id v = u)"

text \<open>
  A multi battle of carol with three invitees: ann and bob accept, then carol, ann and
  bob upload. All of it happens within the two hours of the acceptance window.
\<close>

definition three_invitee_ops :: "operation list" where
  "three_invitee_ops =
     [Create ''b1'' ''carol'' ''multi'' [''ann'', ''bob'', ''dan''] 0,
      Accept ''b1'' ''ann'' 10,
      Accept ''b1'' ''bob'' 20,
      Upload ''b1'' ''carol'' (Some ''c.png'') 30 30 30,
      Upload ''b1'' ''ann'' (Some ''a.png'') 40 40 40,
      Upload ''b1'' ''bob'' (Some ''b.png'') 50 51 52]"

text \<open>Carol challenges herself to a 1v1 battle, accepts and uploads.\<close>

definition self_invite_ops :: "operation list" where
  "self_invite_ops =
     [Create ''b2'' ''carol'' ''1v1'' [''carol''] 0,
      Accept ''b2'' ''carol'' 10,
      Upload ''b2'' ''carol'' (Some ''c.png'') 20 20 20]"

text \<open>Carol creates a multi battle and uploads before anybody has accepted.\<close>

definition early_upload_ops :: "operation list" where
  "early_upload_ops =
     [Create ''b3'' ''carol'' ''multi'' [''ann'', ''bob''] 0,
      Upload ''b3'' ''carol'' (Some ''c.png'') 5 5 5]"

text \<open>A vote whose choice is neither A nor B.\<close>

definition off_menu_ops :: "operation list" where
  "off_menu_ops =
     [Create ''b1'' ''carol'' ''1v1'' [''ann''] 0,
      Vote ''b1'' ''zed'' (Some ''C'') 5]"

text \<open>A battle row whose acceptance window closes at 7200000000, and a store holding it.\<close>

definition stale_battle :: battle where
  "stale_battle =
     \<lparr>creator_id = ''carol'', mode = ''multi'', status = UPLOADING,
      accept_deadline = Some 7200000000, invited_user_ids = [''ann'', ''bob'', ''dan''],
      accepted_user_ids = [''ann'', ''bob''], start_time = None, end_time = None,
      vote_counts = Map.empty\<rparr>"

definition stale_store :: store where
  "stale_store =
     \<lparr>battles = [''b1'' \<mapsto> stale_battle], battle_submissions = [], votes = [], notifications = []\<rparr>"

text \<open>
  Prefixes of acceptance runs: a multi battle just created, the same battle after the
  first acceptance, and a 1v1 battle just created.
\<close>

definition multi_created_ops :: "operation list" where
  "multi_created_ops = [Create ''b1'' ''carol'' ''multi'' [''ann'', ''bob'', ''dan''] 0]"

definition multi_one_accepted_ops :: "operation list" where
  "multi_one_accepted_ops =
     [Create ''b1'' ''carol'' ''multi'' [''ann'', ''bob'', ''dan''] 0,
      Accept ''b1'' ''ann'' 10]"

definition duel_created_ops :: "operation list" where
  "duel_created_ops = [Create ''b4'' ''carol'' ''1v1'' [''ann''] 0]"

text \<open>Three votes for A and one for B on battle b1, and a vote on another battle.\<close>

definition three_to_one_store :: store where
  "three_to_one_store =
     \<lparr>battles = Map.empty, battle_submissions = [],
      votes =
        [\<lparr>vote_battle_id = ''b1'', vote_user_id = ''u1'', vote_choice = Some ''A'', vote_created_at = 1\<rparr>,
         \<lparr>vote_battle_id = ''b1'', vote_user_id = ''u2'', vote_choice = Some ''B'', vote_created_at = 2\<rparr>,
         \<lparr>vote_battle_id = ''b1'', vote_user_id = ''u3'', vote_choice = Some ''A'', vote_created_at = 3\<rparr>,
         \<lparr>vote_battle_id = ''b1'', vote_user_id = ''u4'', vote_choice = Some ''A'', vote_created_at = 4\<rparr>,
         \<lparr>vote_battle_id = ''b9'', vote_user_id = ''u1'', vote_choice = Some ''B'', vote_created_at = 5\<rparr>],
      notifications = []\<rparr>"

text \<open>
  One vote for A and two for B; and one vote for A with fifteen for B, where the
  percentages 6.25 and 93.75 are ties between two one-decimal values.
\<close>

definition one_to_two_store :: store where
  "one_to_two_store =
     \<lparr>battles = Map.empty, battle_submissions = [],
      votes =
        [\<lparr>vote_battle_id = ''b1'', vote_user_id = ''u1'', vote_choice = Some ''B'', vote_created_at = 1\<rparr>,
         \<lparr>vote_battle_id = ''b1'', vote_user_id = ''u2'', vote_choice = Some ''A'', vote_created_at = 2\<rparr>,
         \<lparr>vote_battle_id = ''b1'', vote_user_id = ''u3'', vote_choice = Some ''B'', vote_created_at = 3\<rparr>],
      notifications = []\<rparr>"

definition one_to_fifteen_store :: store where
  "one_to_fifteen_store =
     \<lparr>battles = Map.empty, battle_submissions = [],
      votes =
        \<lparr>vote_battle_id = ''b1'', vote_user_id = ''u00'', vote_choice = Some ''A'', vote_created_at = 0\<rparr> #
        map (\<lambda>u. \<lparr>vote_battle_id = ''b1'', vote_user_id = u, vote_choice = Some ''B'',
                    vote_created_at = 1\<rparr>)
          [''u01'', ''u02'', ''u03'', ''u04'', ''u05'', ''u06'', ''u07'', ''u08'', ''u09'',
           ''u10'', ''u11'', ''u12'', ''u13'', ''u14'', ''u15''],
      notifications = []\<rparr>"

section \<open>Properties\<close>

subsection \<open>Projections of the helpers\<close>

lemmas eval_simps =
  run_def create_user_battle_def parse_UserBattleCreate_def validate_mode_def
  validate_invites_def accept_battle_def upload_battle_submission_def vote_battle_def
  decline_battle_def update_battle_def notify_each_def notify_user_def py_set_def
  py_set_add_def threshold_met_def upsert_submission_def tag_from_user_def
  timedelta_hours_def empty_store_def Let_def

lemma set_py_set [simp]: "set (py_set xs) = set xs"
  by (simp add: py_set_def)

lemma distinct_py_set [simp]: "distinct (py_set xs)"
  by (simp add: py_set_def)

lemma length_py_set: "length (py_set xs) = card (set xs)"
  by (metis distinct_card distinct_py_set set_py_set)

lemma filter_filter_conj: "filter P (filter Q xs) = filter (\<lambda>x. Q x \<and> P x) xs"
  by (induction xs) auto

lemma battles_notify_user [simp]: "battles (notify_user u t m n r s) = battles s"
  by (simp add: notify_user_def)

lemma battles_notify_each [simp]: "battles (notify_each us t m n r s) = battles s"
  unfolding notify_each_def by (induction us arbitrary: s) simp_all

lemma votes_notify_user [simp]: "votes (notify_user u t m n r s) = votes s"
  by (simp add: notify_user_def)

lemma votes_notify_each [simp]: "votes (notify_each us t m n r s) = votes s"
  unfolding notify_each_def by (induction us arbitrary: s) simp_all

lemma subs_notify_user [simp]:
  "battle_submissions (notify_user u t m n r s) = battle_submissions s"
  by (simp add: notify_user_def)

lemma subs_notify_each [simp]:
  "battle_submissions (notify_each us t m n r s) = battle_submissions s"
  unfolding notify_each_def by (induction us arbitrary: s) simp_all

lemma battles_update_battle:
  "battles (update_battle b f s) =
     (case battles s b of None \<Rightarrow> battles s | Some d \<Rightarrow> (battles s)(b \<mapsto> f d))"
  by (simp add: update_battle_def split: option.splits)

lemma votes_update_battle [simp]: "votes (update_battle b f s) = votes s"
  by (simp add: update_battle_def split: option.splits)

lemma subs_update_battle [simp]:
  "battle_submissions (update_battle b f s) = battle_submissions s"
  by (simp add: update_battle_def split: option.splits)

lemma decline_battle_store [simp]: "snd (decline_battle battle_id uid s) = s"
  by (simp add: decline_battle_def split: option.splits)

lemma get_battle_results_internal_store [simp]:
  "snd (get_battle_results_internal battle_id s) = s"
  by (simp add: get_battle_results_internal_def Let_def)

subsection \<open>Accepting after the deadline\<close>

text \<open>
  C1. For a battle with an acceptance deadline, \<open>accept_battle\<close> called at a time strictly
  after the deadline raises the 400 "Acceptance window expired" (ExpiredWindow), leaves
  the battle row with status CANCELLED and appends the "Battle cancelled." notification
  for the creator. Nothing is assumed about the caller (invited or not) or about the
  accepted list of the row, and nothing else of the store changes.
\<close>

theorem accept_after_deadline:
  assumes "battles s battle_id = Some data"
    and "accept_deadline data = Some d"
    and "now > d"
  shows "accept_battle battle_id uid now s =
     (Inl ExpiredWindow,
      s\<lparr>battles := (battles s)(battle_id \<mapsto> data\<lparr>status := CANCELLED\<rparr>),
        notifications := notifications s @
          [\<lparr>n_user_id = creator_id data, n_title = ''Battle cancelled.'',
            n_message = ''Acceptance requirement not met in 2 hours.'',
            n_type = ''battle_result'', n_reference_id = Some battle_id,
            n_is_read = False\<rparr>]\<rparr>)"
  using assms
  by (simp add: accept_battle_def ExpiredWindow_def update_battle_def notify_user_def)

theorem accept_after_deadline_witness:
  "battles stale_store ''b1'' = Some stale_battle \<and>
   accept_deadline stale_battle = Some 7200000000 \<and>
   (7200000001 :: int) > 7200000000 \<and>
   fst (accept_battle ''b1'' ''zed'' 7200000001 stale_store) = Inl ExpiredWindow \<and>
   map_option status (battles (snd (accept_battle ''b1'' ''zed'' 7200000001 stale_store)) ''b1'')
     = Some CANCELLED \<and>
   map_option n_user_id (last (map Some (notifications
       (snd (accept_battle ''b1'' ''zed'' 7200000001 stale_store))))) = Some ''carol''"
proof -
  have h1: "battles stale_store ''b1'' = Some stale_battle"
    by (simp add: stale_store_def)
  have h2: "accept_deadline stale_battle = Some 7200000000"
    by (simp add: stale_battle_def)
  have h3: "(7200000001 :: int) > 7200000000"
    by simp
  show ?thesis
    using h1 h2 h3 accept_after_deadline [OF h1 h2 h3, of "''zed''"]
    by (simp add: stale_store_def stale_battle_def)
qed

subsection \<open>The acceptance threshold\<close>

text \<open>What a successful accept leaves in the battle row.\<close>

lemma accept_battle_success:
  assumes "battles s battle_id = Some data"
    and "fst (accept_battle battle_id uid now s) = Inr r"
  shows "(uid \<in> set (accepted_user_ids data) \<longrightarrow> snd (accept_battle battle_id uid now s) = s) \<and>
         (uid \<notin> set (accepted_user_ids data) \<longrightarrow>
            battles (snd (accept_battle battle_id uid now s)) battle_id =
              Some (data\<lparr>accepted_user_ids := py_set (accepted_user_ids data) @ [uid],
                         status := (if threshold_met (mode data)
                                         (Suc (length (py_set (accepted_user_ids data))))
                                    then UPLOADING else INVITED)\<rparr>))"
  using assms
  by (auto simp: accept_battle_def Let_def py_set_add_def battles_update_battle
      split: option.splits if_splits)

text \<open>The battle rows that each handler can leave behind.\<close>

lemma create_user_battle_row:
  "battles (snd (create_user_battle new_id creator m invited now s)) b = Some data \<Longrightarrow>
     battles s b = Some data \<or>
     ((mode data = ''1v1'' \<or> mode data = ''multi'') \<and> status data = INVITED \<and>
      accepted_user_ids data = [])"
  by (auto simp: create_user_battle_def parse_UserBattleCreate_def validate_mode_def Let_def
      split: sum.splits if_splits)

lemma accept_battle_row:
  "battles (snd (accept_battle battle_id uid now s)) b = Some data' \<Longrightarrow>
     \<exists>data. battles s b = Some data \<and>
       (data' = data \<or> data' = data\<lparr>status := CANCELLED\<rparr> \<or>
        (uid \<notin> set (accepted_user_ids data) \<and>
         data' = data\<lparr>accepted_user_ids := py_set (accepted_user_ids data) @ [uid],
                      status := (if threshold_met (mode data)
                                      (Suc (length (py_set (accepted_user_ids data))))
                                 then UPLOADING else INVITED)\<rparr>))"
  by (auto simp: accept_battle_def Let_def py_set_add_def battles_update_battle
      split: option.splits if_splits)

lemma upload_battle_submission_row:
  "battles (snd (upload_battle_submission battle_id uid url t1 t2 t3 s)) b = Some data' \<Longrightarrow>
     \<exists>data. battles s b = Some data \<and>
       (data' = data \<or>
        data' = data\<lparr>status := LIVE, start_time := Some t2,
                     end_time := Some (t3 + timedelta_hours 24)\<rparr>)"
  by (auto simp: upload_battle_submission_def Let_def battles_update_battle
      split: option.splits if_splits)

lemma vote_battle_row:
  "battles (snd (vote_battle battle_id uid choice now s)) b = Some data' \<Longrightarrow>
     \<exists>data counts. battles s b = Some data \<and>
       (data' = data \<or> data' = data\<lparr>vote_counts := counts\<rparr>)"
  by (auto simp: vote_battle_def Let_def battles_update_battle split: option.splits if_splits)

lemma card_py_set_snoc:
  "uid \<notin> set xs \<Longrightarrow> card (set (py_set xs @ [uid])) = Suc (length (py_set xs))"
proof -
  assume "uid \<notin> set xs"
  then have "distinct (py_set xs @ [uid])" by simp
  then have "card (set (py_set xs @ [uid])) = length (py_set xs @ [uid])"
    by (rule distinct_card)
  then show ?thesis by simp
qed

lemma step_invited_below_threshold:
  assumes "invited_below_threshold s"
  shows "invited_below_threshold (step op s)"
proof (cases op)
  case (Create new_id creator m invited now)
  show ?thesis
    unfolding invited_below_threshold_def
  proof (intro allI impI)
    fix b data
    assume "battles (step op s) b = Some data"
    then have "battles s b = Some data \<or>
     ((mode data = ''1v1'' \<or> mode data = ''multi'') \<and> status data = INVITED \<and>
      accepted_user_ids data = [])"
      using Create create_user_battle_row by simp
    then show "(mode data = ''1v1'' \<or> mode data = ''multi'') \<and>
        (status data = INVITED \<longrightarrow>
           \<not> threshold_met (mode data) (card (set (accepted_user_ids data))))"
      using assms unfolding invited_below_threshold_def by (auto simp: threshold_met_def)
  qed
next
  case (Accept battle_id uid now)
  show ?thesis
    unfolding invited_below_threshold_def
  proof (intro allI impI)
    fix b data'
    assume "battles (step op s) b = Some data'"
    then obtain data where d: "battles s b = Some data"
      and c: "data' = data \<or> data' = data\<lparr>status := CANCELLED\<rparr> \<or>
        (uid \<notin> set (accepted_user_ids data) \<and>
         data' = data\<lparr>accepted_user_ids := py_set (accepted_user_ids data) @ [uid],
                      status := (if threshold_met (mode data)
                                      (Suc (length (py_set (accepted_user_ids data))))
                                 then UPLOADING else INVITED)\<rparr>)"
      using Accept accept_battle_row [of battle_id uid now s b data'] by auto
    from d assms have i: "(mode data = ''1v1'' \<or> mode data = ''multi'') \<and>
        (status data = INVITED \<longrightarrow>
           \<not> threshold_met (mode data) (card (set (accepted_user_ids data))))"
      unfolding invited_below_threshold_def by blast
    from c i show "(mode data' = ''1v1'' \<or> mode data' = ''multi'') \<and>
        (status data' = INVITED \<longrightarrow>
           \<not> threshold_met (mode data') (card (set (accepted_user_ids data'))))"
      by (auto simp: card_py_set_snoc simp del: set_append split: if_splits)
  qed
next
  case (Upload battle_id uid url t1 t2 t3)
  show ?thesis
    unfolding invited_below_threshold_def
  proof (intro allI impI)
    fix b data'
    assume "battles (step op s) b = Some data'"
    then obtain data where d: "battles s b = Some data"
      and c: "data' = data \<or>
        data' = data\<lparr>status := LIVE, start_time := Some t2,
                     end_time := Some (t3 + timedelta_hours 24)\<rparr>"
      using Upload upload_battle_submission_row [of battle_id uid url t1 t2 t3 s b data'] by auto
    from d assms have i: "(mode data = ''1v1'' \<or> mode data = ''multi'') \<and>
        (status data = INVITED \<longrightarrow>
           \<not> threshold_met (mode data) (card (set (accepted_user_ids data))))"
      unfolding invited_below_threshold_def by blast
    from c i show "(mode data' = ''1v1'' \<or> mode data' = ''multi'') \<and>
        (status data' = INVITED \<longrightarrow>
           \<not> threshold_met (mode data') (card (set (accepted_user_ids data'))))"
      by auto
  qed
next
  case (Vote battle_id uid choice now)
  show ?thesis
    unfolding invited_below_threshold_def
  proof (intro allI impI)
    fix b data'
    assume "battles (step op s) b = Some data'"
    then obtain data counts where d: "battles s b = Some data"
      and c: "data' = data \<or> data' = data\<lparr>vote_counts := counts\<rparr>"
      using Vote vote_battle_row [of battle_id uid choice now s b data'] by auto
    from d assms have i: "(mode data = ''1v1'' \<or> mode data = ''multi'') \<and>
        (status data = INVITED \<longrightarrow>
           \<not> threshold_met (mode data) (card (set (accepted_user_ids data))))"
      unfolding invited_below_threshold_def by blast
    from c i show "(mode data' = ''1v1'' \<or> mode data' = ''multi'') \<and>
        (status data' = INVITED \<longrightarrow>
           \<not> threshold_met (mode data') (card (set (accepted_user_ids data'))))"
      by auto
  qed
qed (use assms in simp_all)

lemma run_invited_below_threshold:
  "invited_below_threshold s \<Longrightarrow> invited_below_threshold (run ops s)"
  unfolding run_def by (induction ops arbitrary: s) (simp_all add: step_invited_below_threshold)

lemma invited_below_threshold_empty: "invited_below_threshold empty_store"
  by (simp add: invited_below_threshold_def empty_store_def)

text \<open>
  C2. Take any store reached from the empty store by a sequence of operations and a battle
  in it whose status is INVITED. A successful \<open>accept_battle\<close> on it leaves the accepted
  users as they were plus the caller, and leaves the battle in status UPLOADING exactly
  when the resulting accepted count reaches the threshold of the mode, at least 1 for 1v1
  and at least 2 for multi; below the threshold the battle stays INVITED, so the
  transition never comes earlier. The mode is always one of the two.
\<close>

theorem accept_reaches_threshold:
  assumes row: "battles (run ops empty_store) battle_id = Some data"
    and inv: "status data = INVITED"
    and ok: "fst (accept_battle battle_id uid now (run ops empty_store)) = Inr r"
  shows "\<exists>data'. battles (snd (accept_battle battle_id uid now (run ops empty_store))) battle_id
                  = Some data' \<and>
           mode data' = mode data \<and>
           set (accepted_user_ids data') = insert uid (set (accepted_user_ids data)) \<and>
           (mode data = ''1v1'' \<or> mode data = ''multi'') \<and>
           (status data' = UPLOADING \<or> status data' = INVITED) \<and>
           (mode data = ''1v1'' \<longrightarrow>
              (status data' = UPLOADING \<longleftrightarrow> card (set (accepted_user_ids data')) \<ge> 1)) \<and>
           (mode data = ''multi'' \<longrightarrow>
              (status data' = UPLOADING \<longleftrightarrow> card (set (accepted_user_ids data')) \<ge> 2))"
proof -
  let ?s = "run ops empty_store"
  from row have i: "(mode data = ''1v1'' \<or> mode data = ''multi'') \<and>
      \<not> threshold_met (mode data) (card (set (accepted_user_ids data)))"
    using inv run_invited_below_threshold [OF invited_below_threshold_empty, of ops]
    unfolding invited_below_threshold_def by blast
  show ?thesis
  proof (cases "uid \<in> set (accepted_user_ids data)")
    case True
    then have "snd (accept_battle battle_id uid now ?s) = ?s"
      using accept_battle_success [OF row ok] by simp
    then have "battles (snd (accept_battle battle_id uid now ?s)) battle_id = Some data"
      using row by simp
    moreover have "insert uid (set (accepted_user_ids data)) = set (accepted_user_ids data)"
      using True by auto
    ultimately show ?thesis
      using i inv by (auto simp: threshold_met_def)
  next
    case False
    let ?data' = "data\<lparr>accepted_user_ids := py_set (accepted_user_ids data) @ [uid],
                      status := (if threshold_met (mode data)
                                      (Suc (length (py_set (accepted_user_ids data))))
                                 then UPLOADING else INVITED)\<rparr>"
    have r: "battles (snd (accept_battle battle_id uid now ?s)) battle_id = Some ?data'"
      using accept_battle_success [OF row ok] False by simp
    have c: "card (set (accepted_user_ids ?data')) = Suc (length (py_set (accepted_user_ids data)))"
      using False by (simp add: card_py_set_snoc del: set_append)
    have st: "set (accepted_user_ids ?data') = insert uid (set (accepted_user_ids data))"
      by simp
    show ?thesis
      apply (rule exI [of _ ?data'])
      using r c st i by (auto simp: threshold_met_def simp del: set_append)
  qed
qed

theorem accept_reaches_threshold_witness:
  "map_option status (battles (run multi_created_ops empty_store) ''b1'') = Some INVITED \<and>
   fst (accept_battle ''b1'' ''ann'' 10 (run multi_created_ops empty_store)) = Inr True \<and>
   map_option accepted_user_ids
     (battles (snd (accept_battle ''b1'' ''ann'' 10 (run multi_created_ops empty_store))) ''b1'')
     = Some [''ann''] \<and>
   map_option status
     (battles (snd (accept_battle ''b1'' ''ann'' 10 (run multi_created_ops empty_store))) ''b1'')
     = Some INVITED \<and>
   map_option status (battles (run multi_one_accepted_ops empty_store) ''b1'') = Some INVITED \<and>
   fst (accept_battle ''b1'' ''bob'' 20 (run multi_one_accepted_ops empty_store)) = Inr True \<and>
   map_option accepted_user_ids
     (battles (snd (accept_battle ''b1'' ''bob'' 20 (run multi_one_accepted_ops empty_store))) ''b1'')
     = Some [''ann'', ''bob''] \<and>
   map_option status
     (battles (snd (accept_battle ''b1'' ''bob'' 20 (run multi_one_accepted_ops empty_store))) ''b1'')
     = Some UPLOADING \<and>
   map_option status (battles (run duel_created_ops empty_store) ''b4'') = Some INVITED \<and>
   fst (accept_battle ''b4'' ''ann'' 10 (run duel_created_ops empty_store)) = Inr True \<and>
   map_option status
     (battles (snd (accept_battle ''b4'' ''ann'' 10 (run duel_created_ops empty_store))) ''b4'')
     = Some UPLOADING"
proof -
  obtain d0 where r0: "battles (run multi_created_ops empty_store) ''b1'' = Some d0"
    and s0: "status d0 = INVITED" and m0: "mode d0 = ''multi''" and a0: "accepted_user_ids d0 = []"
    by (simp add: multi_created_ops_def eval_simps)
  have k0: "fst (accept_battle ''b1'' ''ann'' 10 (run multi_created_ops empty_store)) = Inr True"
    by (simp add: multi_created_ops_def eval_simps)
  obtain d1 where r1: "battles (run multi_one_accepted_ops empty_store) ''b1'' = Some d1"
    and s1: "status d1 = INVITED" and m1: "mode d1 = ''multi''"
    and a1: "accepted_user_ids d1 = [''ann'']"
    by (simp add: multi_one_accepted_ops_def eval_simps)
  have k1: "fst (accept_battle ''b1'' ''bob'' 20 (run multi_one_accepted_ops empty_store)) = Inr True"
    by (simp add: multi_one_accepted_ops_def eval_simps)
  obtain d2 where r2: "battles (run duel_created_ops empty_store) ''b4'' = Some d2"
    and s2: "status d2 = INVITED" and m2: "mode d2 = ''1v1''" and a2: "accepted_user_ids d2 = []"
    by (simp add: duel_created_ops_def eval_simps)
  have k2: "fst (accept_battle ''b4'' ''ann'' 10 (run duel_created_ops empty_store)) = Inr True"
    by (simp add: duel_created_ops_def eval_simps)
  from accept_reaches_threshold [OF r0 s0 k0]
  obtain x0 where
    x0: "battles (snd (accept_battle ''b1'' ''ann'' 10 (run multi_created_ops empty_store))) ''b1''
           = Some x0"
    and c0: "set (accepted_user_ids x0) = insert ''ann'' (set (accepted_user_ids d0))"
    and u0: "status x0 = UPLOADING \<or> status x0 = INVITED"
    and t0: "mode d0 = ''multi'' \<longrightarrow>
              (status x0 = UPLOADING \<longleftrightarrow> card (set (accepted_user_ids x0)) \<ge> 2)"
    by blast
  have "card (set (accepted_user_ids x0)) = 1"
    unfolding c0 a0 by simp
  with t0 m0 u0 have "status x0 = INVITED" by simp
  with x0 have w0: "map_option status
     (battles (snd (accept_battle ''b1'' ''ann'' 10 (run multi_created_ops empty_store))) ''b1'')
     = Some INVITED"
    by simp
  from accept_reaches_threshold [OF r1 s1 k1]
  obtain x1 where
    x1: "battles (snd (accept_battle ''b1'' ''bob'' 20 (run multi_one_accepted_ops empty_store))) ''b1''
           = Some x1"
    and c1: "set (accepted_user_ids x1) = insert ''bob'' (set (accepted_user_ids d1))"
    and t1: "mode d1 = ''multi'' \<longrightarrow>
              (status x1 = UPLOADING \<longleftrightarrow> card (set (accepted_user_ids x1)) \<ge> 2)"
    by blast
  have "card (set (accepted_user_ids x1)) = 2"
    unfolding c1 a1 by simp
  with t1 m1 have "status x1 = UPLOADING" by simp
  with x1 have w1: "map_option status
     (battles (snd (accept_battle ''b1'' ''bob'' 20 (run multi_one_accepted_ops empty_store))) ''b1'')
     = Some UPLOADING"
    by simp
  from accept_reaches_threshold [OF r2 s2 k2]
  obtain x2 where
    x2: "battles (snd (accept_battle ''b4'' ''ann'' 10 (run duel_created_ops empty_store))) ''b4''
           = Some x2"
    and c2: "set (accepted_user_ids x2) = insert ''ann'' (set (accepted_user_ids d2))"
    and t2: "mode d2 = ''1v1'' \<longrightarrow>
              (status x2 = UPLOADING \<longleftrightarrow> card (set (accepted_user_ids x2)) \<ge> 1)"
    by blast
  have "card (set (accepted_user_ids x2)) = 1"
    unfolding c2 a2 by simp
  with t2 m2 have "status x2 = UPLOADING" by simp
  with x2 have w2: "map_option status
     (battles (snd (accept_battle ''b4'' ''ann'' 10 (run duel_created_ops empty_store))) ''b4'')
     = Some UPLOADING"
    by simp
  have e0: "map_option accepted_user_ids
     (battles (snd (accept_battle ''b1'' ''ann'' 10 (run multi_created_ops empty_store))) ''b1'')
     = Some [''ann'']"
    by (simp add: multi_created_ops_def eval_simps)
  have e1: "map_option accepted_user_ids
     (battles (snd (accept_battle ''b1'' ''bob'' 20 (run multi_one_accepted_ops empty_store))) ''b1'')
     = Some [''ann'', ''bob'']"
    by (simp add: multi_one_accepted_ops_def eval_simps)
  show ?thesis
    using r0 s0 k0 w0 e0 r1 s1 k1 w1 e1 r2 s2 k2 w2 by (simp only: option.map simp_thms)
qed

subsection \<open>Uploads and going live\<close>

text \<open>One row per (battle, user): the upsert keeps the keys of the table distinct.\<close>

lemma upsert_submission_keys:
  "set (submission_keys (upsert_submission r rows)) =
     insert (sub_battle_id r, sub_user_id r) (set (submission_keys rows))"
  by (auto simp: upsert_submission_def submission_keys_def image_iff)

lemma upsert_submission_keys_distinct:
  assumes "distinct (submission_keys rows)"
  shows "distinct (submission_keys (upsert_submission r rows))"
proof -
  have "submission_keys
          (map (\<lambda>x. if sub_battle_id x = sub_battle_id r \<and> sub_user_id x = sub_user_id r
                     then r else x) rows) = submission_keys rows"
    by (induction rows) (auto simp: submission_keys_def)
  with assms show ?thesis
    by (auto simp: upsert_submission_def) (auto simp: submission_keys_def)
qed

lemma submitters_upsert:
  "set (map sub_user_id (filter (\<lambda>x. sub_battle_id x = b) (upsert_submission r rows))) =
     (if sub_battle_id r = b
      then insert (sub_user_id r) (set (map sub_user_id (filter (\<lambda>x. sub_battle_id x = b) rows)))
      else set (map sub_user_id (filter (\<lambda>x. sub_battle_id x = b) rows)))"
  by (auto simp: upsert_submission_def image_iff)

text \<open>
  A successful upload adds the caller to the submitters, and the battle goes LIVE exactly
  when the number of distinct submitters reaches the number of accepted users plus one.
\<close>

lemma upload_battle_submission_success:
  assumes "battles s b = Some data"
    and "fst (upload_battle_submission b uid url t1 t2 t3 s) = Inr r"
  shows "submitters b (snd (upload_battle_submission b uid url t1 t2 t3 s))
           = insert uid (submitters b s) \<and>
         uid \<in> required_submitters data \<and>
         battles (snd (upload_battle_submission b uid url t1 t2 t3 s)) b =
           Some (if card (insert uid (submitters b s)) \<ge> card (set (accepted_user_ids data)) + 1
                 then data\<lparr>status := LIVE, start_time := Some t2,
                            end_time := Some (t3 + timedelta_hours 24)\<rparr>
                 else data)"
  using assms
  by (simp add: upload_battle_submission_def Let_def submitters_def required_submitters_def
      submitters_upsert length_py_set battles_update_battle del: set_map split: if_splits)

text \<open>
  When the creator is not among the accepted users and every earlier submission came from
  a required submitter, the count test of the handler is the covering test of the spec:
  the upload sets LIVE, \<open>start_time\<close> and \<open>end_time\<close> exactly when the submitters cover the
  required submitters, and leaves the row alone otherwise.
\<close>

lemma upload_goes_live_iff_covered:
  assumes row: "battles s b = Some data"
    and ok: "fst (upload_battle_submission b uid url t1 t2 t3 s) = Inr r"
    and creator: "creator_id data \<notin> set (accepted_user_ids data)"
    and sub: "submitters b s \<subseteq> required_submitters data"
  shows "battles (snd (upload_battle_submission b uid url t1 t2 t3 s)) b =
           Some (if required_submitters data
                      \<subseteq> submitters b (snd (upload_battle_submission b uid url t1 t2 t3 s))
                 then data\<lparr>status := LIVE, start_time := Some t2,
                            end_time := Some (t3 + timedelta_hours 24)\<rparr>
                 else data)"
proof -
  let ?S = "insert uid (submitters b s)"
  let ?R = "required_submitters data"
  note up = upload_battle_submission_success [OF row ok]
  have fin: "finite ?R" by (simp add: required_submitters_def)
  have SR: "?S \<subseteq> ?R" using up sub by simp
  have cardR: "card ?R = card (set (accepted_user_ids data)) + 1"
    using creator by (simp add: required_submitters_def)
  have "card ?S \<ge> card (set (accepted_user_ids data)) + 1 \<longleftrightarrow> ?R \<subseteq> ?S"
  proof
    assume "card ?S \<ge> card (set (accepted_user_ids data)) + 1"
    then have "card ?R \<le> card ?S" using cardR by simp
    then have "?S = ?R" using SR fin by (simp add: card_seteq)
    then show "?R \<subseteq> ?S" by simp
  next
    assume "?R \<subseteq> ?S"
    then have "card ?R \<le> card ?S"
      by (rule card_mono [rotated]) (simp add: submitters_def)
    then show "card ?S \<ge> card (set (accepted_user_ids data)) + 1" using cardR by simp
  qed
  then show ?thesis using up by simp
qed

text \<open>
  C3 fails when the creator is among the accepted users. Carol invites herself to a 1v1
  battle and accepts, which moves the battle to UPLOADING; then she uploads. The upload
  succeeds and the submitters of b2 are exactly the required ones, carol alone, yet the
  battle stays in UPLOADING: the handler asks for as many distinct submitters as there
  are accepted users plus one, which counts carol twice.
\<close>

theorem self_invite_upload_stuck:
  "fst (upload_battle_submission ''b2'' ''carol'' (Some ''c.png'') 20 20 20
         (run (butlast self_invite_ops) empty_store)) = Inr True \<and>
   run self_invite_ops empty_store =
     snd (upload_battle_submission ''b2'' ''carol'' (Some ''c.png'') 20 20 20
           (run (butlast self_invite_ops) empty_store)) \<and>
   map_option creator_id (battles (run self_invite_ops empty_store) ''b2'') = Some ''carol'' \<and>
   map_option accepted_user_ids (battles (run self_invite_ops empty_store) ''b2'')
     = Some [''carol''] \<and>
   map sub_battle_id (battle_submissions (run self_invite_ops empty_store)) = [''b2''] \<and>
   map sub_user_id (battle_submissions (run self_invite_ops empty_store)) = [''carol''] \<and>
   map_option status (battles (run (butlast self_invite_ops) empty_store) ''b2'')
     = Some UPLOADING \<and>
   map_option status (battles (run self_invite_ops empty_store) ''b2'') = Some UPLOADING"
  by (simp add: self_invite_ops_def eval_simps)

subsection \<open>Direction of the status\<close>

text \<open>
  C4 fails: \<open>accept_battle\<close> writes INVITED with every new acceptance and UPLOADING when the
  threshold is met, whatever the status was. After \<open>three_invitee_ops\<close> the battle b1 is
  LIVE; the third invitee accepts within the window and the battle is back in UPLOADING.
  After \<open>early_upload_ops\<close> the battle b3 is LIVE (nobody had accepted when the creator
  uploaded); the first acceptance puts it back to INVITED.
\<close>

theorem accept_moves_status_backward:
  "map_option status (battles (run three_invitee_ops empty_store) ''b1'') = Some LIVE \<and>
   fst (accept_battle ''b1'' ''dan'' 60 (run three_invitee_ops empty_store)) = Inr True \<and>
   map_option status
     (battles (snd (accept_battle ''b1'' ''dan'' 60 (run three_invitee_ops empty_store))) ''b1'')
     = Some UPLOADING \<and>
   map_option status (battles (run early_upload_ops empty_store) ''b3'') = Some LIVE \<and>
   fst (accept_battle ''b3'' ''ann'' 60 (run early_upload_ops empty_store)) = Inr True \<and>
   map_option status
     (battles (snd (accept_battle ''b3'' ''ann'' 60 (run early_upload_ops empty_store))) ''b3'')
     = Some INVITED"
  by (simp add: three_invitee_ops_def early_upload_ops_def eval_simps)

subsection \<open>Accepted users are invited users\<close>

lemma create_user_battle_battles:
  "battles (snd (create_user_battle new_id creator m invited now s)) b = Some data \<Longrightarrow>
     battles s b = Some data \<or> (b = new_id \<and> accepted_user_ids data = [])"
  by (auto simp: create_user_battle_def Let_def split: sum.splits if_splits)

lemma accept_battle_battles:
  "battles (snd (accept_battle battle_id uid now s)) b = Some data' \<Longrightarrow>
     battles s b = Some data' \<or>
     (\<exists>data. b = battle_id \<and> battles s b = Some data \<and>
        invited_user_ids data' = invited_user_ids data \<and>
        (accepted_user_ids data' = accepted_user_ids data \<or>
         (uid \<in> set (invited_user_ids data) \<and>
          set (accepted_user_ids data') = insert uid (set (accepted_user_ids data)))))"
  by (auto simp: accept_battle_def Let_def py_set_add_def battles_update_battle
      split: option.splits if_splits)

lemma upload_battle_submission_battles:
  "battles (snd (upload_battle_submission battle_id uid url t1 t2 t3 s)) b = Some data' \<Longrightarrow>
     battles s b = Some data' \<or>
     (\<exists>data. battles s b = Some data \<and> invited_user_ids data' = invited_user_ids data \<and>
        accepted_user_ids data' = accepted_user_ids data)"
  by (auto simp: upload_battle_submission_def Let_def battles_update_battle
      split: option.splits if_splits)

lemma vote_battle_battles:
  "battles (snd (vote_battle battle_id uid choice now s)) b = Some data' \<Longrightarrow>
     battles s b = Some data' \<or>
     (\<exists>data. battles s b = Some data \<and> invited_user_ids data' = invited_user_ids data \<and>
        accepted_user_ids data' = accepted_user_ids data)"
  by (auto simp: vote_battle_def Let_def battles_update_battle split: option.splits if_splits)

lemma step_accepted_within_invited:
  assumes "accepted_within_invited s"
  shows "accepted_within_invited (step op s)"
proof (cases op)
  case (Create new_id creator m invited now)
  then show ?thesis
    using assms create_user_battle_battles [of new_id creator m invited now s]
    unfolding accepted_within_invited_def by fastforce
next
  case (Accept battle_id uid now)
  then show ?thesis
    using assms accept_battle_battles [of battle_id uid now s]
    unfolding accepted_within_invited_def by fastforce
next
  case (Upload battle_id uid url t1 t2 t3)
  then show ?thesis
    using assms upload_battle_submission_battles [of battle_id uid url t1 t2 t3 s]
    unfolding accepted_within_invited_def by fastforce
next
  case (Vote battle_id uid choice now)
  then show ?thesis
    using assms vote_battle_battles [of battle_id uid choice now s]
    unfolding accepted_within_invited_def by fastforce
qed (use assms in simp_all)

lemma run_accepted_within_invited:
  "accepted_within_invited s \<Longrightarrow> accepted_within_invited (run ops s)"
  unfolding run_def by (induction ops arbitrary: s) (simp_all add: step_accepted_within_invited)

lemma accepted_within_invited_empty: "accepted_within_invited empty_store"
  by (simp add: accepted_within_invited_def empty_store_def)

lemma create_user_battle_accepted_empty:
  "fst (create_user_battle new_id creator m invited now s) = Inr r \<Longrightarrow>
     map_option accepted_user_ids
       (battles (snd (create_user_battle new_id creator m invited now s)) new_id) = Some []"
  by (auto simp: create_user_battle_def Let_def split: sum.splits if_splits)

lemma accept_battle_not_invited:
  assumes "battles s b = Some data" and "uid \<notin> set (invited_user_ids data)"
  shows "(\<exists>e. fst (accept_battle b uid now s) = Inl e) \<and>
         map_option accepted_user_ids (battles (snd (accept_battle b uid now s)) b)
           = Some (accepted_user_ids data) \<and>
         ((\<forall>d. accept_deadline data = Some d \<longrightarrow> now \<le> d) \<longrightarrow>
            accept_battle b uid now s = (Inl Forbidden, s))"
  using assms
  by (auto simp: accept_battle_def Let_def Forbidden_def battles_update_battle
      split: option.splits)

text \<open>
  C5. Start from the empty store and run any sequence of creations, accepts, declines,
  uploads, votes and result reads: in every battle row of the resulting store the accepted
  users are among the invited users. A successful creation stores the empty accepted
  list. A caller who is not invited never gets through \<open>accept_battle\<close>: the call raises,
  the accepted list of the row stays as it was, and while the acceptance window is open
  the error is the 403 "Not invited" (Forbidden) with the store unchanged (after the
  deadline the expiry error of C1 comes first).
\<close>

theorem accepted_subset_invited:
  "(battles (run ops empty_store) b = Some data \<longrightarrow>
      set (accepted_user_ids data) \<subseteq> set (invited_user_ids data)) \<and>
   (fst (create_user_battle new_id creator m invited now s) = Inr r \<longrightarrow>
      map_option accepted_user_ids
        (battles (snd (create_user_battle new_id creator m invited now s)) new_id) = Some []) \<and>
   (battles s b' = Some data' \<and> uid \<notin> set (invited_user_ids data') \<longrightarrow>
      (\<exists>e. fst (accept_battle b' uid now' s) = Inl e) \<and>
      map_option accepted_user_ids (battles (snd (accept_battle b' uid now' s)) b')
        = Some (accepted_user_ids data') \<and>
      ((\<forall>d. accept_deadline data' = Some d \<longrightarrow> now' \<le> d) \<longrightarrow>
         accept_battle b' uid now' s = (Inl Forbidden, s)))"
proof (intro conjI impI)
  assume "battles (run ops empty_store) b = Some data"
  then show "set (accepted_user_ids data) \<subseteq> set (invited_user_ids data)"
    using run_accepted_within_invited [OF accepted_within_invited_empty, of ops]
    unfolding accepted_within_invited_def by blast
next
  assume "fst (create_user_battle new_id creator m invited now s) = Inr r"
  then show "map_option accepted_user_ids
        (battles (snd (create_user_battle new_id creator m invited now s)) new_id) = Some []"
    by (rule create_user_battle_accepted_empty)
next
  assume a: "battles s b' = Some data' \<and> uid \<notin> set (invited_user_ids data')"
  then show "\<exists>e. fst (accept_battle b' uid now' s) = Inl e"
    using accept_battle_not_invited [of s b' data' uid now'] by blast
  from a show "map_option accepted_user_ids (battles (snd (accept_battle b' uid now' s)) b')
        = Some (accepted_user_ids data')"
    using accept_battle_not_invited [of s b' data' uid now'] by blast
  assume "\<forall>d. accept_deadline data' = Some d \<longrightarrow> now' \<le> d"
  with a show "accept_battle b' uid now' s = (Inl Forbidden, s)"
    using accept_battle_not_invited [of s b' data' uid now'] by blast
qed

theorem accepted_subset_invited_witness:
  "map_option (\<lambda>d. set (accepted_user_ids d) \<subseteq> set (invited_user_ids d))
     (battles (run three_invitee_ops empty_store) ''b1'') = Some True \<and>
   map_option accepted_user_ids (battles (run three_invitee_ops empty_store) ''b1'')
     = Some [''ann'', ''bob''] \<and>
   fst (create_user_battle ''b1'' ''carol'' ''1v1'' [''ann''] 0 empty_store) = Inr ''b1'' \<and>
   map_option accepted_user_ids
     (battles (snd (create_user_battle ''b1'' ''carol'' ''1v1'' [''ann''] 0 empty_store)) ''b1'')
     = Some [] \<and>
   battles stale_store ''b1'' = Some stale_battle \<and>
   ''zed'' \<notin> set (invited_user_ids stale_battle) \<and>
   accept_deadline stale_battle = Some 7200000000 \<and>
   accept_battle ''b1'' ''zed'' 100 stale_store = (Inl Forbidden, stale_store)"
proof -
  obtain data where h1: "battles (run three_invitee_ops empty_store) ''b1'' = Some data"
    and acc: "accepted_user_ids data = [''ann'', ''bob'']"
    by (simp add: three_invitee_ops_def eval_simps)
  have h2: "fst (create_user_battle ''b1'' ''carol'' ''1v1'' [''ann''] 0 empty_store) = Inr ''b1''"
    by (simp add: eval_simps)
  have h3: "battles stale_store ''b1'' = Some stale_battle"
    by (simp add: stale_store_def)
  have h4: "''zed'' \<notin> set (invited_user_ids stale_battle)"
    "accept_deadline stale_battle = Some 7200000000"
    by (simp_all add: stale_battle_def)
  note inst = accepted_subset_invited [where ops = three_invitee_ops and b = "''b1''"
      and data = data and new_id = "''b1''" and creator = "''carol''" and m = "''1v1''"
      and invited = "[''ann'']" and now = 0 and s = empty_store and r = "''b1''"]
  from inst h1 have a: "set (accepted_user_ids data) \<subseteq> set (invited_user_ids data)"
    by blast
  from inst h2 have b: "map_option accepted_user_ids
     (battles (snd (create_user_battle ''b1'' ''carol'' ''1v1'' [''ann''] 0 empty_store)) ''b1'')
     = Some []"
    by blast
  from accepted_subset_invited [where s = stale_store and b' = "''b1''"
      and data' = stale_battle and uid = "''zed''" and now' = 100] h3 h4
  have c: "accept_battle ''b1'' ''zed'' 100 stale_store = (Inl Forbidden, stale_store)"
    by simp
  show ?thesis using h1 acc a b c h2 h3 h4 by simp
qed

subsection \<open>Votes\<close>

text \<open>
  C6 fails: \<open>vote_battle\<close> looks at neither the status nor \<open>end_time\<close> of the battle; its
  only guard is the existing vote of the caller. A vote on a battle that was just created
  (status INVITED) succeeds and its row is stored. After \<open>three_invitee_ops\<close> the battle
  b1 is LIVE until 86400000052; a vote at 90000000000 succeeds and its row is stored.
\<close>

theorem vote_without_state_check:
  "map_option status
     (battles (run [Create ''b1'' ''carol'' ''1v1'' [''ann''] 0] empty_store) ''b1'')
     = Some INVITED \<and>
   fst (vote_battle ''b1'' ''zed'' (Some ''A'') 5
          (run [Create ''b1'' ''carol'' ''1v1'' [''ann''] 0] empty_store))
     = Inr \<lparr>vote_battle_id = ''b1'', vote_user_id = ''zed'', vote_choice = Some ''A'',
            vote_created_at = 5\<rparr> \<and>
   votes (snd (vote_battle ''b1'' ''zed'' (Some ''A'') 5
                 (run [Create ''b1'' ''carol'' ''1v1'' [''ann''] 0] empty_store)))
     = [\<lparr>vote_battle_id = ''b1'', vote_user_id = ''zed'', vote_choice = Some ''A'',
          vote_created_at = 5\<rparr>] \<and>
   map_option status (battles (run three_invitee_ops empty_store) ''b1'') = Some LIVE \<and>
   map_option end_time (battles (run three_invitee_ops empty_store) ''b1'')
     = Some (Some 86400000052) \<and>
   (86400000052 :: int) < 90000000000 \<and>
   fst (vote_battle ''b1'' ''zed'' (Some ''B'') 90000000000 (run three_invitee_ops empty_store))
     = Inr \<lparr>vote_battle_id = ''b1'', vote_user_id = ''zed'', vote_choice = Some ''B'',
            vote_created_at = 90000000000\<rparr> \<and>
   votes (snd (vote_battle ''b1'' ''zed'' (Some ''B'') 90000000000
                 (run three_invitee_ops empty_store)))
     = [\<lparr>vote_battle_id = ''b1'', vote_user_id = ''zed'', vote_choice = Some ''B'',
          vote_created_at = 90000000000\<rparr>]"
  by (simp add: three_invitee_ops_def eval_simps)

text \<open>No operation removes a vote row, and a vote call always leaves a row of the caller.\<close>

lemma votes_create [simp]:
  "votes (snd (create_user_battle new_id creator m invited now s)) = votes s"
  by (simp add: create_user_battle_def Let_def split: sum.splits)

lemma votes_accept [simp]: "votes (snd (accept_battle battle_id uid now s)) = votes s"
  by (simp add: accept_battle_def Let_def split: option.splits)

lemma votes_upload [simp]:
  "votes (snd (upload_battle_submission battle_id uid url t1 t2 t3 s)) = votes s"
  by (simp add: upload_battle_submission_def Let_def split: option.splits)

lemma votes_vote:
  "votes (snd (vote_battle battle_id uid choice now s)) = votes s \<or>
   votes (snd (vote_battle battle_id uid choice now s)) =
     votes s @ [\<lparr>vote_battle_id = battle_id, vote_user_id = uid, vote_choice = choice,
                 vote_created_at = now\<rparr>]"
  by (simp add: vote_battle_def Let_def split: option.splits)

lemma has_vote_step:
  assumes "has_vote b u s"
  shows "has_vote b u (step op s)"
proof (cases op)
  case (Vote battle_id uid choice now)
  then show ?thesis
    using assms votes_vote [of battle_id uid choice now s]
    by (auto simp: has_vote_def)
qed (use assms in \<open>simp_all add: has_vote_def\<close>)

lemma has_vote_run: "has_vote b u s \<Longrightarrow> has_vote b u (run ops s)"
  unfolding run_def by (induction ops arbitrary: s) (simp_all add: has_vote_step)

lemma has_vote_after_vote: "has_vote b u (snd (vote_battle b u c t s))"
  by (auto simp: vote_battle_def Let_def has_vote_def filter_empty_conv split: option.splits)

lemma vote_battle_has_vote:
  "has_vote b u s \<Longrightarrow> vote_battle b u c t s = (Inl AlreadyVoted, s)"
  by (auto simp: vote_battle_def Let_def has_vote_def AlreadyVoted_def filter_empty_conv)

text \<open>
  C7. Take any call of \<open>vote_battle\<close> for a battle and a user, then any sequence of
  operations, then a second call of \<open>vote_battle\<close> for the same battle and user (with any
  choice, at any time): the second call raises the 400 "User has already voted on this
  battle" (AlreadyVoted) and returns the store it was given, so the stored votes, the
  vote counts and the results of the battle are what they were before the call.
\<close>

theorem second_vote_rejected:
  "vote_battle b u c2 t2 (run ops (snd (vote_battle b u c1 t1 s)))
     = (Inl AlreadyVoted, run ops (snd (vote_battle b u c1 t1 s))) \<and>
   get_battle_results_internal b
       (snd (vote_battle b u c2 t2 (run ops (snd (vote_battle b u c1 t1 s)))))
     = get_battle_results_internal b (run ops (snd (vote_battle b u c1 t1 s)))"
proof -
  have "has_vote b u (run ops (snd (vote_battle b u c1 t1 s)))"
    by (rule has_vote_run) (rule has_vote_after_vote)
  then have "vote_battle b u c2 t2 (run ops (snd (vote_battle b u c1 t1 s)))
     = (Inl AlreadyVoted, run ops (snd (vote_battle b u c1 t1 s)))"
    by (rule vote_battle_has_vote)
  then show ?thesis by simp
qed

subsection \<open>Results\<close>

lemma py_round_zero: "py_round 0 (Suc 0) = 0"
  by (simp add: py_round_def binary64_def round_half_even_def)

lemma py_truediv_zero: "py_truediv 0 n = 0"
  by (simp add: py_truediv_def binary64_def)

lemma py_float_mul_zero: "py_float_mul 0 x = 0"
  by (simp add: py_float_mul_def binary64_def)

lemma pct_75: "py_round (py_float_mul (py_truediv 3 4) 100) (Suc 0) = 75"
  by code_simp

lemma pct_25: "py_round (py_float_mul (py_truediv (Suc 0) 4) 100) (Suc 0) = 25"
  by code_simp

text \<open>
  Rounding to one decimal: \<open>round_half_even\<close> gives the nearest integer, the even one at a
  tie, so \<open>py_round x 1\<close> is the float nearest to the multiple of one tenth that is nearest
  to \<open>x\<close>. The instances below are inexact quotients (thirds) and ties (sixteenths).
\<close>

lemma round_half_even_nearest:
  "\<bar>of_int (round_half_even q) - q\<bar> \<le> 1 / 2 \<and>
   (\<bar>of_int (round_half_even q) - q\<bar> = 1 / 2 \<longrightarrow> even (round_half_even q))"
proof -
  let ?f = "\<lfloor>q\<rfloor>"
  let ?r = "q - of_int ?f"
  have lo: "0 \<le> ?r" by simp
  have hi: "?r < 1" by linarith
  consider "?r < 1 / 2" | "?r > 1 / 2" | "?r = 1 / 2" by linarith
  then show ?thesis
  proof cases
    case 1
    then have k: "round_half_even q = ?f" by (simp add: round_half_even_def Let_def)
    have "\<bar>of_int ?f - q\<bar> = ?r" using lo by linarith
    then show ?thesis using 1 k by simp
  next
    case 2
    then have k: "round_half_even q = ?f + 1" by (simp add: round_half_even_def Let_def)
    have "\<bar>of_int (?f + 1) - q\<bar> = 1 - ?r" using hi by simp
    then show ?thesis using 2 k by simp
  next
    case 3
    then have k: "round_half_even q = (if even ?f then ?f else ?f + 1)"
      by (simp add: round_half_even_def Let_def)
    have a: "\<bar>of_int ?f - q\<bar> = 1 / 2" using 3 by linarith
    have b: "\<bar>of_int (?f + 1) - q\<bar> = 1 / 2" using 3 by simp
    show ?thesis using k a b by (cases "even ?f") simp_all
  qed
qed

lemma py_round_one_decimal:
  "\<exists>k. \<bar>of_int k - 10 * x\<bar> \<le> 1 / 2 \<and> (\<bar>of_int k - 10 * x\<bar> = 1 / 2 \<longrightarrow> even k) \<and>
       py_round x (Suc 0) = binary64 (of_int k / 10)"
  using round_half_even_nearest [of "x * 10"]
  by (intro exI [of _ "round_half_even (x * 10)"]) (simp add: py_round_def mult.commute)

lemma pct_1_of_3: "py_round (py_float_mul (py_truediv (Suc 0) 3) 100) (Suc 0)
    = 2343279181116211 / 70368744177664"
  by code_simp

lemma pct_2_of_3: "py_round (py_float_mul (py_truediv 2 3) 100) (Suc 0)
    = 4693595236650189 / 70368744177664"
  by code_simp

lemma pct_1_of_16: "py_round (py_float_mul (py_truediv (Suc 0) 16) 100) (Suc 0)
    = 6980579422424269 / 1125899906842624"
  by code_simp

lemma pct_15_of_16: "py_round (py_float_mul (py_truediv 15 16) 100) (Suc 0)
    = 6600588203864883 / 70368744177664"
  by code_simp

lemma tie_1_of_16: "py_float_mul (py_truediv (Suc 0) 16) 100 = 25 / 4"
  by code_simp

lemma double_33_3: "binary64 (333 / 10) = 2343279181116211 / 70368744177664"
  by code_simp

lemma double_6_2: "binary64 (62 / 10) = 6980579422424269 / 1125899906842624"
  by code_simp


lemma get_battle_results_internal_fst:
  "fst (get_battle_results_internal b s) =
     Inr \<lparr>res_battle_id = b,
          total_votes = length (filter (\<lambda>v. vote_battle_id v = b) (votes s)),
          option_a_votes =
            length (filter (\<lambda>v. vote_battle_id v = b \<and> vote_choice v = Some ''A'') (votes s)),
          option_b_votes =
            length (filter (\<lambda>v. vote_battle_id v = b \<and> vote_choice v = Some ''B'') (votes s)),
          option_a_percentage =
            py_round
              (if length (filter (\<lambda>v. vote_battle_id v = b) (votes s)) > 0
               then py_float_mul
                      (py_truediv
                         (length (filter (\<lambda>v. vote_battle_id v = b \<and> vote_choice v = Some ''A'')
                            (votes s)))
                         (length (filter (\<lambda>v. vote_battle_id v = b) (votes s)))) 100
               else 0) (Suc 0),
          option_b_percentage =
            py_round
              (if length (filter (\<lambda>v. vote_battle_id v = b) (votes s)) > 0
               then py_float_mul
                      (py_truediv
                         (length (filter (\<lambda>v. vote_battle_id v = b \<and> vote_choice v = Some ''B'')
                            (votes s)))
                         (length (filter (\<lambda>v. vote_battle_id v = b) (votes s)))) 100
               else 0) (Suc 0)\<rparr>"
  by (simp add: get_battle_results_internal_def Let_def filter_filter_conj)

lemma length_filter_conj_le:
  "length (filter (\<lambda>v. P v \<and> Q v) xs) \<le> length (filter P xs)"
  by (induction xs) auto

text \<open>
  C8. \<open>get_battle_results_internal\<close> returns the store it was given and a response in
  which \<open>total_votes\<close> is the number of vote rows of the battle and \<open>option_a_votes\<close> and
  \<open>option_b_votes\<close> are the numbers of those rows whose choice is "A" and "B". Both
  percentages are 0 when the total is 0. Otherwise each percentage is the float nearest
  to \<open>k / 10\<close>, where \<open>k\<close> is the integer nearest to ten times the float
  \<^verbatim>\<open>count / total * 100\<close> (the even one at a tie): the value rounded to one decimal.
  With no vote the response is all zeros; three votes for A and one for B give total 4,
  counts 3 and 1, percentages 75.0 and 25.0; one for A and two for B give the floats
  33.3 and 66.7; one for A and fifteen for B give the floats 6.2 and 93.8.
\<close>

theorem results_computed:
  "snd (get_battle_results_internal b s) = s \<and>
   (\<exists>r. fst (get_battle_results_internal b s) = Inr r \<and> res_battle_id r = b \<and>
      total_votes r = length (filter (\<lambda>v. vote_battle_id v = b) (votes s)) \<and>
      option_a_votes r =
        length (filter (\<lambda>v. vote_battle_id v = b \<and> vote_choice v = Some ''A'') (votes s)) \<and>
      option_b_votes r =
        length (filter (\<lambda>v. vote_battle_id v = b \<and> vote_choice v = Some ''B'') (votes s)) \<and>
      (total_votes r = 0 \<longrightarrow> option_a_percentage r = 0 \<and> option_b_percentage r = 0) \<and>
      (total_votes r > 0 \<longrightarrow>
         (\<exists>k. \<bar>of_int k - 10 * py_float_mul (py_truediv (option_a_votes r) (total_votes r)) 100\<bar>
                 \<le> 1 / 2 \<and>
              (\<bar>of_int k - 10 * py_float_mul (py_truediv (option_a_votes r) (total_votes r)) 100\<bar>
                 = 1 / 2 \<longrightarrow> even k) \<and>
              option_a_percentage r = binary64 (of_int k / 10)) \<and>
         (\<exists>k. \<bar>of_int k - 10 * py_float_mul (py_truediv (option_b_votes r) (total_votes r)) 100\<bar>
                 \<le> 1 / 2 \<and>
              (\<bar>of_int k - 10 * py_float_mul (py_truediv (option_b_votes r) (total_votes r)) 100\<bar>
                 = 1 / 2 \<longrightarrow> even k) \<and>
              option_b_percentage r = binary64 (of_int k / 10))) \<and>
      (total_votes r = 0 \<longrightarrow>
         r = \<lparr>res_battle_id = b, total_votes = 0, option_a_votes = 0, option_b_votes = 0,
              option_a_percentage = 0, option_b_percentage = 0\<rparr>) \<and>
      (option_a_votes r = 3 \<and> option_b_votes r = 1 \<and> total_votes r = 4 \<longrightarrow>
         r = \<lparr>res_battle_id = b, total_votes = 4, option_a_votes = 3, option_b_votes = 1,
              option_a_percentage = 75, option_b_percentage = 25\<rparr>) \<and>
      (option_a_votes r = 1 \<and> option_b_votes r = 2 \<and> total_votes r = 3 \<longrightarrow>
         r = \<lparr>res_battle_id = b, total_votes = 3, option_a_votes = 1, option_b_votes = 2,
              option_a_percentage = 2343279181116211 / 70368744177664,
              option_b_percentage = 4693595236650189 / 70368744177664\<rparr>) \<and>
      (option_a_votes r = 1 \<and> option_b_votes r = 15 \<and> total_votes r = 16 \<longrightarrow>
         r = \<lparr>res_battle_id = b, total_votes = 16, option_a_votes = 1, option_b_votes = 15,
              option_a_percentage = 6980579422424269 / 1125899906842624,
              option_b_percentage = 6600588203864883 / 70368744177664\<rparr>))"
proof -
  define T where "T = length (filter (\<lambda>v. vote_battle_id v = b) (votes s))"
  define A where
    "A = length (filter (\<lambda>v. vote_battle_id v = b \<and> vote_choice v = Some ''A'') (votes s))"
  define B where
    "B = length (filter (\<lambda>v. vote_battle_id v = b \<and> vote_choice v = Some ''B'') (votes s))"
  define pa where
    "pa = py_round (if T > 0 then py_float_mul (py_truediv A T) 100 else 0) (Suc 0)"
  define pb where
    "pb = py_round (if T > 0 then py_float_mul (py_truediv B T) 100 else 0) (Suc 0)"
  define r where
    "r = \<lparr>res_battle_id = b, total_votes = T, option_a_votes = A, option_b_votes = B,
           option_a_percentage = pa, option_b_percentage = pb\<rparr>"
  have AT: "A \<le> T" and BT: "B \<le> T"
    unfolding A_def B_def T_def by (rule length_filter_conj_le)+
  have res: "fst (get_battle_results_internal b s) = Inr r"
    unfolding r_def pa_def pb_def T_def A_def B_def by (rule get_battle_results_internal_fst)
  have sel: "res_battle_id r = b" "total_votes r = T" "option_a_votes r = A"
    "option_b_votes r = B" "option_a_percentage r = pa" "option_b_percentage r = pb"
    by (simp_all add: r_def)
  have zero: "pa = 0 \<and> pb = 0" if "T = 0"
    using that by (simp add: pa_def pb_def py_round_zero)
  have ka: "\<exists>k. \<bar>of_int k - 10 * py_float_mul (py_truediv A T) 100\<bar> \<le> 1 / 2 \<and>
          (\<bar>of_int k - 10 * py_float_mul (py_truediv A T) 100\<bar> = 1 / 2 \<longrightarrow> even k) \<and>
          pa = binary64 (of_int k / 10)" if "T > 0"
    using that py_round_one_decimal [of "py_float_mul (py_truediv A T) 100"]
    by (simp only: pa_def if_True)
  have kb: "\<exists>k. \<bar>of_int k - 10 * py_float_mul (py_truediv B T) 100\<bar> \<le> 1 / 2 \<and>
          (\<bar>of_int k - 10 * py_float_mul (py_truediv B T) 100\<bar> = 1 / 2 \<longrightarrow> even k) \<and>
          pb = binary64 (of_int k / 10)" if "T > 0"
    using that py_round_one_decimal [of "py_float_mul (py_truediv B T) 100"]
    by (simp only: pb_def if_True)
  have ex0: "r = \<lparr>res_battle_id = b, total_votes = 0, option_a_votes = 0, option_b_votes = 0,
              option_a_percentage = 0, option_b_percentage = 0\<rparr>" if "T = 0"
    using that zero AT BT by (simp add: r_def)
  have ex1: "r = \<lparr>res_battle_id = b, total_votes = 4, option_a_votes = 3, option_b_votes = 1,
              option_a_percentage = 75, option_b_percentage = 25\<rparr>"
    if "A = 3 \<and> B = 1 \<and> T = 4"
    using that by (simp add: r_def pa_def pb_def pct_75 pct_25)
  have ex2: "r = \<lparr>res_battle_id = b, total_votes = 3, option_a_votes = 1, option_b_votes = 2,
              option_a_percentage = 2343279181116211 / 70368744177664,
              option_b_percentage = 4693595236650189 / 70368744177664\<rparr>"
    if "A = 1 \<and> B = 2 \<and> T = 3"
    using that by (simp add: r_def pa_def pb_def pct_1_of_3 pct_2_of_3)
  have ex3: "r = \<lparr>res_battle_id = b, total_votes = 16, option_a_votes = 1, option_b_votes = 15,
              option_a_percentage = 6980579422424269 / 1125899906842624,
              option_b_percentage = 6600588203864883 / 70368744177664\<rparr>"
    if "A = 1 \<and> B = 15 \<and> T = 16"
    using that by (simp add: r_def pa_def pb_def pct_1_of_16 pct_15_of_16)
  have body: "fst (get_battle_results_internal b s) = Inr r \<and> res_battle_id r = b \<and>
      total_votes r = T \<and> option_a_votes r = A \<and> option_b_votes r = B \<and>
      (total_votes r = 0 \<longrightarrow> option_a_percentage r = 0 \<and> option_b_percentage r = 0) \<and>
      (total_votes r > 0 \<longrightarrow>
         (\<exists>k. \<bar>of_int k - 10 * py_float_mul (py_truediv (option_a_votes r) (total_votes r)) 100\<bar>
                 \<le> 1 / 2 \<and>
              (\<bar>of_int k - 10 * py_float_mul (py_truediv (option_a_votes r) (total_votes r)) 100\<bar>
                 = 1 / 2 \<longrightarrow> even k) \<and>
              option_a_percentage r = binary64 (of_int k / 10)) \<and>
         (\<exists>k. \<bar>of_int k - 10 * py_float_mul (py_truediv (option_b_votes r) (total_votes r)) 100\<bar>
                 \<le> 1 / 2 \<and>
              (\<bar>of_int k - 10 * py_float_mul (py_truediv (option_b_votes r) (total_votes r)) 100\<bar>
                 = 1 / 2 \<longrightarrow> even k) \<and>
              option_b_percentage r = binary64 (of_int k / 10))) \<and>
      (total_votes r = 0 \<longrightarrow>
         r = \<lparr>res_battle_id = b, total_votes = 0, option_a_votes = 0, option_b_votes = 0,
              option_a_percentage = 0, option_b_percentage = 0\<rparr>) \<and>
      (option_a_votes r = 3 \<and> option_b_votes r = 1 \<and> total_votes r = 4 \<longrightarrow>
         r = \<lparr>res_battle_id = b, total_votes = 4, option_a_votes = 3, option_b_votes = 1,
              option_a_percentage = 75, option_b_percentage = 25\<rparr>) \<and>
      (option_a_votes r = 1 \<and> option_b_votes r = 2 \<and> total_votes r = 3 \<longrightarrow>
         r = \<lparr>res_battle_id = b, total_votes = 3, option_a_votes = 1, option_b_votes = 2,
              option_a_percentage = 2343279181116211 / 70368744177664,
              option_b_percentage = 4693595236650189 / 70368744177664\<rparr>) \<and>
      (option_a_votes r = 1 \<and> option_b_votes r = 15 \<and> total_votes r = 16 \<longrightarrow>
         r = \<lparr>res_battle_id = b, total_votes = 16, option_a_votes = 1, option_b_votes = 15,
              option_a_percentage = 6980579422424269 / 1125899906842624,
              option_b_percentage = 6600588203864883 / 70368744177664\<rparr>)"
    unfolding sel using res zero ka kb ex0 ex1 ex2 ex3 by blast
  show ?thesis
    apply (rule conjI)
     apply (rule get_battle_results_internal_store)
    apply (rule exI [of _ r])
    using body unfolding T_def A_def B_def by blast
qed


theorem results_computed_witness:
  "fst (get_battle_results_internal ''b1'' empty_store)
     = Inr \<lparr>res_battle_id = ''b1'', total_votes = 0, option_a_votes = 0, option_b_votes = 0,
            option_a_percentage = 0, option_b_percentage = 0\<rparr> \<and>
   fst (get_battle_results_internal ''b1'' three_to_one_store)
     = Inr \<lparr>res_battle_id = ''b1'', total_votes = 4, option_a_votes = 3, option_b_votes = 1,
            option_a_percentage = 75, option_b_percentage = 25\<rparr> \<and>
   fst (get_battle_results_internal ''b1'' one_to_two_store)
     = Inr \<lparr>res_battle_id = ''b1'', total_votes = 3, option_a_votes = 1, option_b_votes = 2,
            option_a_percentage = 2343279181116211 / 70368744177664,
            option_b_percentage = 4693595236650189 / 70368744177664\<rparr> \<and>
   fst (get_battle_results_internal ''b1'' one_to_fifteen_store)
     = Inr \<lparr>res_battle_id = ''b1'', total_votes = 16, option_a_votes = 1, option_b_votes = 15,
            option_a_percentage = 6980579422424269 / 1125899906842624,
            option_b_percentage = 6600588203864883 / 70368744177664\<rparr>"
proof -
  have e: "length (filter (\<lambda>v. vote_battle_id v = ''b1'') (votes empty_store)) = 0"
    by (simp add: empty_store_def)
  have t: "length (filter (\<lambda>v. vote_battle_id v = ''b1'') (votes three_to_one_store)) = 4"
    "length (filter (\<lambda>v. vote_battle_id v = ''b1'' \<and> vote_choice v = Some ''A'')
       (votes three_to_one_store)) = 3"
    "length (filter (\<lambda>v. vote_battle_id v = ''b1'' \<and> vote_choice v = Some ''B'')
       (votes three_to_one_store)) = 1"
    by (simp_all add: three_to_one_store_def)
  have u: "length (filter (\<lambda>v. vote_battle_id v = ''b1'') (votes one_to_two_store)) = 3"
    "length (filter (\<lambda>v. vote_battle_id v = ''b1'' \<and> vote_choice v = Some ''A'')
       (votes one_to_two_store)) = 1"
    "length (filter (\<lambda>v. vote_battle_id v = ''b1'' \<and> vote_choice v = Some ''B'')
       (votes one_to_two_store)) = 2"
    by (simp_all add: one_to_two_store_def)
  have w: "length (filter (\<lambda>v. vote_battle_id v = ''b1'') (votes one_to_fifteen_store)) = 16"
    "length (filter (\<lambda>v. vote_battle_id v = ''b1'' \<and> vote_choice v = Some ''A'')
       (votes one_to_fifteen_store)) = 1"
    "length (filter (\<lambda>v. vote_battle_id v = ''b1'' \<and> vote_choice v = Some ''B'')
       (votes one_to_fifteen_store)) = 15"
    by (simp_all add: one_to_fifteen_store_def)
  from results_computed [of "''b1''" empty_store] e
  have a: "fst (get_battle_results_internal ''b1'' empty_store)
     = Inr \<lparr>res_battle_id = ''b1'', total_votes = 0, option_a_votes = 0, option_b_votes = 0,
            option_a_percentage = 0, option_b_percentage = 0\<rparr>"
    by auto
  from results_computed [of "''b1''" three_to_one_store] t
  have b: "fst (get_battle_results_internal ''b1'' three_to_one_store)
     = Inr \<lparr>res_battle_id = ''b1'', total_votes = 4, option_a_votes = 3, option_b_votes = 1,
            option_a_percentage = 75, option_b_percentage = 25\<rparr>"
    by auto
  from results_computed [of "''b1''" one_to_two_store] u
  have c: "fst (get_battle_results_internal ''b1'' one_to_two_store)
     = Inr \<lparr>res_battle_id = ''b1'', total_votes = 3, option_a_votes = 1, option_b_votes = 2,
            option_a_percentage = 2343279181116211 / 70368744177664,
            option_b_percentage = 4693595236650189 / 70368744177664\<rparr>"
    by auto
  from results_computed [of "''b1''" one_to_fifteen_store] w
  have d: "fst (get_battle_results_internal ''b1'' one_to_fifteen_store)
     = Inr \<lparr>res_battle_id = ''b1'', total_votes = 16, option_a_votes = 1, option_b_votes = 15,
            option_a_percentage = 6980579422424269 / 1125899906842624,
            option_b_percentage = 6600588203864883 / 70368744177664\<rparr>"
    by auto
  show ?thesis using a b c d by (simp only: simp_thms)
qed

subsection \<open>Size of the invited list\<close>

text \<open>The 1v1 branch of the validator does reject: a 1v1 creation needs one invitee.\<close>

lemma one_v_one_needs_one_invitee:
  "fst (create_user_battle new_id creator ''1v1'' invited now s) = Inr r \<Longrightarrow> length invited = 1"
  by (auto simp: create_user_battle_def parse_UserBattleCreate_def validate_mode_def
      validate_invites_def Let_def split: sum.splits if_splits)

text \<open>
  C9 fails for multi battles: the branch of \<open>validate_invites\<close> for them tests the size
  and then does nothing, so a multi battle is created with one invitee, with none and
  with five.
\<close>

theorem multi_invites_unchecked:
  "validate_invites [''ann''] (Some ''multi'') = Inr [''ann''] \<and>
   fst (create_user_battle ''b1'' ''carol'' ''multi'' [''ann''] 0 empty_store) = Inr ''b1'' \<and>
   map_option invited_user_ids
     (battles (snd (create_user_battle ''b1'' ''carol'' ''multi'' [''ann''] 0 empty_store)) ''b1'')
     = Some [''ann''] \<and>
   fst (create_user_battle ''b1'' ''carol'' ''multi'' [] 0 empty_store) = Inr ''b1'' \<and>
   fst (create_user_battle ''b1'' ''carol'' ''multi''
          [''ann'', ''bob'', ''dan'', ''eve'', ''fay''] 0 empty_store) = Inr ''b1''"
  by (simp add: eval_simps)

subsection \<open>Choices outside A and B\<close>

lemma count_two_filters:
  assumes "\<And>v. \<not> (A v \<and> B v)"
  shows "length (filter (\<lambda>v. P v \<and> A v) xs) + length (filter (\<lambda>v. P v \<and> B v) xs)
           \<le> length (filter P xs) \<and>
         (length (filter (\<lambda>v. P v \<and> A v) xs) + length (filter (\<lambda>v. P v \<and> B v) xs)
            = length (filter P xs)
          \<longleftrightarrow> (\<forall>v \<in> set xs. P v \<longrightarrow> A v \<or> B v))"
  using assms by (induction xs) auto

text \<open>
  C10. \<open>vote_battle\<close> does not look at the choice: for an existing battle and a user
  without a vote on it, a vote with any choice string succeeds and its row is appended to
  the votes. In the results of a battle, \<open>option_a_votes + option_b_votes\<close> is at most
  \<open>total_votes\<close>, and the two are equal exactly when the choice of every stored vote of the
  battle is "A" or "B".
\<close>

theorem unvalidated_choice_tally:
  "(battles s b = Some data \<and>
    (\<forall>v \<in> set (votes s). \<not> (vote_battle_id v = b \<and> vote_user_id v = u)) \<longrightarrow>
      fst (vote_battle b u (Some c) t s)
        = Inr \<lparr>vote_battle_id = b, vote_user_id = u, vote_choice = Some c, vote_created_at = t\<rparr> \<and>
      votes (snd (vote_battle b u (Some c) t s))
        = votes s @ [\<lparr>vote_battle_id = b, vote_user_id = u, vote_choice = Some c,
                      vote_created_at = t\<rparr>]) \<and>
   (\<exists>r. fst (get_battle_results_internal b s) = Inr r \<and>
      option_a_votes r + option_b_votes r \<le> total_votes r \<and>
      (option_a_votes r + option_b_votes r = total_votes r \<longleftrightarrow>
         (\<forall>v \<in> set (votes s). vote_battle_id v = b \<longrightarrow>
            vote_choice v = Some ''A'' \<or> vote_choice v = Some ''B'')))"
proof (intro conjI impI)
  assume a: "battles s b = Some data \<and>
    (\<forall>v \<in> set (votes s). \<not> (vote_battle_id v = b \<and> vote_user_id v = u))"
  then have e: "filter (\<lambda>v. vote_battle_id v = b \<and> vote_user_id v = u) (votes s) = []"
    by (simp add: filter_empty_conv)
  show "fst (vote_battle b u (Some c) t s)
        = Inr \<lparr>vote_battle_id = b, vote_user_id = u, vote_choice = Some c, vote_created_at = t\<rparr>"
    using a e by (simp add: vote_battle_def Let_def)
  show "votes (snd (vote_battle b u (Some c) t s))
        = votes s @ [\<lparr>vote_battle_id = b, vote_user_id = u, vote_choice = Some c,
                      vote_created_at = t\<rparr>]"
    using a e by (simp add: vote_battle_def Let_def)
next
  have ne: "\<not> (vote_choice v = Some ''A'' \<and> vote_choice v = Some ''B'')" for v :: vote
    by auto
  show "\<exists>r. fst (get_battle_results_internal b s) = Inr r \<and>
      option_a_votes r + option_b_votes r \<le> total_votes r \<and>
      (option_a_votes r + option_b_votes r = total_votes r \<longleftrightarrow>
         (\<forall>v \<in> set (votes s). vote_battle_id v = b \<longrightarrow>
            vote_choice v = Some ''A'' \<or> vote_choice v = Some ''B''))"
    using count_two_filters [of "\<lambda>v. vote_choice v = Some ''A''"
        "\<lambda>v. vote_choice v = Some ''B''" "\<lambda>v. vote_battle_id v = b" "votes s", OF ne]
    by (simp add: get_battle_results_internal_def Let_def filter_filter_conj)
qed

theorem unvalidated_choice_tally_witness:
  "map_option creator_id
     (battles (run [Create ''b1'' ''carol'' ''1v1'' [''ann''] 0] empty_store) ''b1'')
     = Some ''carol'' \<and>
   votes (run [Create ''b1'' ''carol'' ''1v1'' [''ann''] 0] empty_store) = [] \<and>
   votes (run off_menu_ops empty_store)
     = [\<lparr>vote_battle_id = ''b1'', vote_user_id = ''zed'', vote_choice = Some ''C'',
          vote_created_at = 5\<rparr>] \<and>
   fst (get_battle_results_internal ''b1'' (run off_menu_ops empty_store))
     = Inr \<lparr>res_battle_id = ''b1'', total_votes = 1, option_a_votes = 0, option_b_votes = 0,
            option_a_percentage = 0, option_b_percentage = 0\<rparr> \<and>
   (0 :: nat) + 0 < 1 \<and>
   map_option (\<lambda>r. option_a_votes r + option_b_votes r = total_votes r)
     (case fst (get_battle_results_internal ''b1'' three_to_one_store) of
        Inl e \<Rightarrow> None | Inr r \<Rightarrow> Some r)
     = Some True"
proof -
  let ?s0 = "run [Create ''b1'' ''carol'' ''1v1'' [''ann''] 0] empty_store"
  obtain data where h1: "battles ?s0 ''b1'' = Some data" and c: "creator_id data = ''carol''"
    by (simp add: eval_simps)
  have h2: "votes ?s0 = []"
    by (simp add: eval_simps)
  have h3: "\<forall>v \<in> set (votes ?s0). \<not> (vote_battle_id v = ''b1'' \<and> vote_user_id v = ''zed'')"
    using h2 by simp
  have r: "run off_menu_ops empty_store = snd (vote_battle ''b1'' ''zed'' (Some ''C'') 5 ?s0)"
    by (simp add: off_menu_ops_def run_def)
  from unvalidated_choice_tally [of ?s0 "''b1''" data "''zed''" "''C''" 5] h1 h2 h3
  have v: "votes (run off_menu_ops empty_store)
     = [\<lparr>vote_battle_id = ''b1'', vote_user_id = ''zed'', vote_choice = Some ''C'',
          vote_created_at = 5\<rparr>]"
    unfolding r by simp
  have all: "\<forall>v \<in> set (votes three_to_one_store). vote_battle_id v = ''b1'' \<longrightarrow>
            vote_choice v = Some ''A'' \<or> vote_choice v = Some ''B''"
    by (simp add: three_to_one_store_def)
  from unvalidated_choice_tally [of three_to_one_store "''b1''" data "''zed''" "''C''" 5] all
  have eq: "map_option (\<lambda>r. option_a_votes r + option_b_votes r = total_votes r)
     (case fst (get_battle_results_internal ''b1'' three_to_one_store) of
        Inl e \<Rightarrow> None | Inr r \<Rightarrow> Some r)
     = Some True"
    by auto
  have res: "fst (get_battle_results_internal ''b1'' (run off_menu_ops empty_store))
     = Inr \<lparr>res_battle_id = ''b1'', total_votes = 1, option_a_votes = 0, option_b_votes = 0,
            option_a_percentage = 0, option_b_percentage = 0\<rparr>"
    unfolding get_battle_results_internal_def v
    by (simp add: py_round_zero py_truediv_zero py_float_mul_zero)
  show ?thesis using h1 c h2 v res eq by simp
qed

end
